theory Spec2Isabelle
  imports Main "HOL-Library.Code_Target_Nat"
begin

section \<open>The KopeCode Java extension: runtime discovery and server lifecycle\<close>

text \<open>
  A shallow embedding of \<^verbatim>\<open>src/extensions/kope-java/src/extension.ts\<close>.

  Conventions of the embedding:
  \<^item> A JavaScript string is a \<open>string\<close> holding its UTF-8 bytes. Every character the code
    looks for (the double quote, the dot, the decimal digits, CR and LF) is ASCII, and an
    ASCII byte never occurs inside a multi-byte UTF-8 sequence, so byte-wise matching
    agrees with matching on code units.
  \<^item> An \<^verbatim>\<open>async\<close> function is an \<open>action\<close>: a function from the state of the
    world to an outcome (\<open>Inl\<close> a thrown error or rejected promise, \<open>Inr\<close> the returned
    value), the state afterwards, and the list of calls made to the outside, in order.
    \<^verbatim>\<open>await\<close> is sequential composition (\<open>bind\<close>); the overlap of two
    activations of the extension is not modelled.
  \<^item> The outside (Node's \<^verbatim>\<open>path\<close> and \<^verbatim>\<open>child_process\<close> modules, the
    editor's configuration, the process environment, the language client library) is a
    \<open>host\<close> record of functions. What a call to the outside may do is everything its
    interface allows: \<^verbatim>\<open>cp.exec\<close> may report an error, \<^verbatim>\<open>fs.mkdirSync\<close>,
    \<^verbatim>\<open>client.start()\<close> and \<^verbatim>\<open>client.stop()\<close> may throw or reject.
    \<^verbatim>\<open>fs.existsSync\<close> never throws. Every call to the outside is taken to return:
    a subprocess that hangs is not modelled.
  \<^item> \<^verbatim>\<open>console.log\<close>, \<^verbatim>\<open>console.warn\<close> and \<^verbatim>\<open>console.error\<close> are not
    modelled, nor is the callback that \<^verbatim>\<open>setTimeout\<close> runs 1.5 seconds after a
    successful start, nor the two handlers stored in the client options (the client
    library calls them later, on its own events). \<^verbatim>\<open>activate\<close> is not modelled
    either: it calls \<^verbatim>\<open>findValidJavaRuntime\<close> and \<^verbatim>\<open>launchLanguageServer\<close>,
    shows a message when one of them throws, and registers \<^verbatim>\<open>restartLanguageServer\<close>
    for changes of the setting.
\<close>

subsection \<open>Data\<close>

datatype js_error = Error (message: string)

text \<open>The result type of \<^verbatim>\<open>validateJavaPath\<close>:
  \<^verbatim>\<open>{ isValid: true; path: string } | { isValid: false; reason: string }\<close>.\<close>

datatype validation = Valid (path: string) | Invalid (reason: string)

text \<open>A \<^verbatim>\<open>LanguageClient\<close>, as far as the extension determines it: the server options.\<close>

record language_client =
  command :: string
  args :: "string list"

text \<open>The calls to the outside, as they appear in the source.\<close>

datatype event =
    ExistsSync string
  | MkdirSync string
  | Exec string
  | GetConfiguration
  | ReadEnvJavaHome
  | NewLanguageClient language_client
  | ClientStart language_client
  | ClientStop language_client
  | ShowErrorMessage string
  | ShowInformationMessage string

record host =
  path_join :: "string list \<Rightarrow> string"
  path_dirname :: "string \<Rightarrow> string"
  exec :: "string \<Rightarrow> js_error + (string \<times> string)"
  javaHome_setting :: "string option"
  JAVA_HOME :: "string option"
  extensionPath :: string
  mkdir_error :: "string \<Rightarrow> js_error option"
  start_error :: "language_client \<Rightarrow> js_error option"
  stop_error :: "language_client \<Rightarrow> js_error option"
  big_number_text :: "nat \<Rightarrow> string"

text \<open>
  \<open>exec h cmd\<close> is what the callback of \<^verbatim>\<open>cp.exec(cmd, ...)\<close> receives: an error, or
  the pair (stdout, stderr). \<open>javaHome_setting\<close> is
  \<^verbatim>\<open>config.get<string>('javaHome')\<close> and \<open>JAVA_HOME\<close> is
  \<^verbatim>\<open>process.env.JAVA_HOME\<close>; \<open>None\<close> is \<^verbatim>\<open>undefined\<close>.
  \<open>mkdir_error\<close>, \<open>start_error\<close> and \<open>stop_error\<close> say whether
  \<^verbatim>\<open>fs.mkdirSync\<close>, \<^verbatim>\<open>client.start()\<close> and \<^verbatim>\<open>client.stop()\<close> throw, and
  what. \<open>big_number_text\<close> is how the runtime prints a number that is too large for a
  double to hold exactly (see \<open>number_text\<close> below). Within one run the host answers
  the same question the same way: a command that is executed twice prints the same output.

  The state: \<open>files\<close> is the set of paths for which \<^verbatim>\<open>fs.existsSync\<close> returns
  true (only \<^verbatim>\<open>fs.mkdirSync\<close> changes it), and \<open>client\<close> is the module variable
  \<^verbatim>\<open>let client\<close>, \<open>None\<close> when it holds \<^verbatim>\<open>undefined\<close>.
\<close>

record world =
  files :: "string set"
  client :: "language_client option"

subsection \<open>Actions\<close>

type_synonym 'a action = "world \<Rightarrow> (js_error + 'a) \<times> world \<times> event list"

definition outcome :: "(js_error + 'a) \<times> world \<times> event list \<Rightarrow> js_error + 'a" where
  "outcome r = fst r"

definition final :: "(js_error + 'a) \<times> world \<times> event list \<Rightarrow> world" where
  "final r = fst (snd r)"

definition effects :: "(js_error + 'a) \<times> world \<times> event list \<Rightarrow> event list" where
  "effects r = snd (snd r)"

definition ret :: "'a \<Rightarrow> 'a action" where
  "ret x = (\<lambda>w. (Inr x, w, []))"

definition throw :: "js_error \<Rightarrow> 'a action" where
  "throw e = (\<lambda>w. (Inl e, w, []))"

definition emit :: "event \<Rightarrow> unit action" where
  "emit ev = (\<lambda>w. (Inr (), w, [ev]))"

definition bind :: "'a action \<Rightarrow> ('a \<Rightarrow> 'b action) \<Rightarrow> 'b action" where
  "bind m f = (\<lambda>w. case m w of
       (Inl e, w', es) \<Rightarrow> (Inl e, w', es)
     | (Inr x, w', es) \<Rightarrow> (case f x w' of (r, w'', es') \<Rightarrow> (r, w'', es @ es')))"

definition try_catch :: "'a action \<Rightarrow> (js_error \<Rightarrow> 'a action) \<Rightarrow> 'a action" where
  "try_catch m handler = (\<lambda>w. case m w of
       (Inl e, w', es) \<Rightarrow> (case handler e w' of (r, w'', es') \<Rightarrow> (r, w'', es @ es'))
     | (Inr x, w', es) \<Rightarrow> (Inr x, w', es))"

text \<open>The library calls.\<close>

definition existsSync :: "string \<Rightarrow> bool action" where
  "existsSync p = (\<lambda>w. (Inr (p \<in> files w), w, [ExistsSync p]))"

definition mkdirSync :: "host \<Rightarrow> string \<Rightarrow> unit action" where
  "mkdirSync h p = (\<lambda>w. case mkdir_error h p of
       Some e \<Rightarrow> (Inl e, w, [MkdirSync p])
     | None \<Rightarrow> (Inr (), w\<lparr>files := insert p (files w)\<rparr>, [MkdirSync p]))"

text \<open>\<^verbatim>\<open>execPromise\<close>: rejects with the error of \<^verbatim>\<open>cp.exec\<close> if there is one, resolves
  with both outputs otherwise.\<close>

definition execPromise :: "host \<Rightarrow> string \<Rightarrow> (string \<times> string) action" where
  "execPromise h cmd = (\<lambda>w. (exec h cmd, w, [Exec cmd]))"

definition new_LanguageClient :: "language_client \<Rightarrow> unit action" where
  "new_LanguageClient c = (\<lambda>w. (Inr (), w\<lparr>client := Some c\<rparr>, [NewLanguageClient c]))"

definition client_start :: "host \<Rightarrow> language_client \<Rightarrow> unit action" where
  "client_start h c = (\<lambda>w. (case start_error h c of Some e \<Rightarrow> Inl e | None \<Rightarrow> Inr (),
      w, [ClientStart c]))"

definition client_stop :: "host \<Rightarrow> language_client \<Rightarrow> unit action" where
  "client_stop h c = (\<lambda>w. (case stop_error h c of Some e \<Rightarrow> Inl e | None \<Rightarrow> Inr (),
      w, [ClientStop c]))"

definition get_client :: "language_client option action" where
  "get_client = (\<lambda>w. (Inr (client w), w, []))"

definition set_client :: "language_client option \<Rightarrow> unit action" where
  "set_client c = (\<lambda>w. (Inr (), w\<lparr>client := c\<rparr>, []))"

subsection \<open>Strings\<close>

definition dq :: char where "dq = CHR 0x22"
definition sq :: char where "sq = CHR 0x27"
definition CR :: char where "CR = CHR 0x0D"
definition LF :: char where "LF = CHR 0x0A"

text \<open>\<^verbatim>\<open>if (s)\<close> on a value of type \<^verbatim>\<open>string | undefined\<close>: \<^verbatim>\<open>undefined\<close> and
  the empty string are falsy.\<close>

fun truthy :: "string option \<Rightarrow> string option" where
  "truthy None = None"
| "truthy (Some s) = (if s = [] then None else Some s)"

text \<open>The class \<^verbatim>\<open>\d\<close> of a regular expression without the unicode flag: 0 to 9.\<close>

definition is_digit :: "char \<Rightarrow> bool" where
  "is_digit c = (c \<in> set ''0123456789'')"

text \<open>
  \<^verbatim>\<open>s.match(/"(\d+)\./)\<close>, returning the first group of the leftmost match: at each double
  quote, the longest run of digits after it is taken (a shorter run would be followed by
  a digit, not by a dot), and the match succeeds there if the run is not empty and a dot
  follows it.
\<close>

fun version_match :: "string \<Rightarrow> string option" where
  "version_match [] = None"
| "version_match (c # cs) =
     (if c = dq \<and> takeWhile is_digit cs \<noteq> [] \<and>
         (case dropWhile is_digit cs of [] \<Rightarrow> False | d # _ \<Rightarrow> d = CHR ''.'')
      then Some (takeWhile is_digit cs)
      else version_match cs)"

definition digit_value :: "char \<Rightarrow> nat" where
  "digit_value c = of_char c - 48"

text \<open>\<^verbatim>\<open>parseInt(ds, 10)\<close> on a non-empty string of digits, as a mathematical integer.\<close>

definition parseInt10 :: "string \<Rightarrow> nat" where
  "parseInt10 ds = foldl (\<lambda>n c. 10 * n + digit_value c) 0 ds"

definition digit_char :: "nat \<Rightarrow> char" where
  "digit_char n = ''0123456789'' ! (n mod 10)"

function show_nat :: "nat \<Rightarrow> string" where
  "show_nat n = (if n < 10 then [digit_char n]
                 else show_nat (n div 10) @ [digit_char (n mod 10)])"
  by pat_completeness auto
termination
  by (relation "measure id") auto

text \<open>
  The number in a template literal. \<^verbatim>\<open>parseInt\<close> returns a double: below \<open>2^53\<close> it is
  the integer itself and prints as its decimal digits; from there on the double is a
  rounding of the integer and its text is left to the host. Rounding to a double is
  monotone and keeps 17 and 99, so the comparisons with the two bounds are those of the
  integers.
\<close>

definition number_text :: "host \<Rightarrow> nat \<Rightarrow> string" where
  "number_text h n = (if n < 2 ^ 53 then show_nat n else big_number_text h n)"

text \<open>
  \<^verbatim>\<open>s.trim()\<close> removes white space and line terminators from both ends. These are
  their UTF-8 encodings: U+0009 to U+000D, U+0020, U+00A0, U+1680, U+2000 to U+200A,
  U+2028, U+2029, U+202F, U+205F, U+3000, U+FEFF.
\<close>

definition white_space :: "string list" where
  "white_space =
    [[CHR 0x09], [CHR 0x0A], [CHR 0x0B], [CHR 0x0C], [CHR 0x0D], [CHR 0x20],
     [CHR 0xC2, CHR 0xA0], [CHR 0xE1, CHR 0x9A, CHR 0x80],
     [CHR 0xE2, CHR 0x80, CHR 0x80], [CHR 0xE2, CHR 0x80, CHR 0x81],
     [CHR 0xE2, CHR 0x80, CHR 0x82], [CHR 0xE2, CHR 0x80, CHR 0x83],
     [CHR 0xE2, CHR 0x80, CHR 0x84], [CHR 0xE2, CHR 0x80, CHR 0x85],
     [CHR 0xE2, CHR 0x80, CHR 0x86], [CHR 0xE2, CHR 0x80, CHR 0x87],
     [CHR 0xE2, CHR 0x80, CHR 0x88], [CHR 0xE2, CHR 0x80, CHR 0x89],
     [CHR 0xE2, CHR 0x80, CHR 0x8A], [CHR 0xE2, CHR 0x80, CHR 0xA8],
     [CHR 0xE2, CHR 0x80, CHR 0xA9], [CHR 0xE2, CHR 0x80, CHR 0xAF],
     [CHR 0xE2, CHR 0x81, CHR 0x9F], [CHR 0xE3, CHR 0x80, CHR 0x80],
     [CHR 0xEF, CHR 0xBB, CHR 0xBF]]"

fun starts_with :: "string \<Rightarrow> string \<Rightarrow> bool" where
  "starts_with s [] = True"
| "starts_with [] (p # ps) = False"
| "starts_with (c # cs) (p # ps) = (c = p \<and> starts_with cs ps)"

function strip_left :: "string list \<Rightarrow> string \<Rightarrow> string" where
  "strip_left toks s =
     (case filter (\<lambda>t. t \<noteq> [] \<and> starts_with s t) toks of
        [] \<Rightarrow> s
      | t # _ \<Rightarrow> strip_left toks (drop (length t) s))"
  by pat_completeness auto
termination
proof (relation "measure (\<lambda>(toks, s). length s)")
  show "wf (measure (\<lambda>(toks, s). length s))" by simp
next
  fix toks :: "string list" and s t :: string and ts
  assume "filter (\<lambda>t. t \<noteq> [] \<and> starts_with s t) toks = t # ts"
  then have "t \<in> set (filter (\<lambda>t. t \<noteq> [] \<and> starts_with s t) toks)" by simp
  then have t: "t \<noteq> []" "starts_with s t" by auto
  have "starts_with s t \<Longrightarrow> t \<noteq> [] \<Longrightarrow> s \<noteq> []" by (cases s; cases t) auto
  with t have "s \<noteq> []" by blast
  with t show "((toks, drop (length t) s), (toks, s)) \<in> measure (\<lambda>(toks, s). length s)"
    by simp
qed

definition trim :: "string \<Rightarrow> string" where
  "trim s = rev (strip_left (map rev white_space) (rev (strip_left white_space s)))"

text \<open>\<^verbatim>\<open>s.split('\r\n')\<close>: the pieces between the occurrences of CR LF, found from the
  left; the empty string gives one empty piece.\<close>

fun split_crlf :: "string \<Rightarrow> string list" where
  "split_crlf [] = [[]]"
| "split_crlf [c] = [[c]]"
| "split_crlf (c # d # cs) =
     (if c = CR \<and> d = LF then [] # split_crlf cs
      else (case split_crlf (d # cs) of [] \<Rightarrow> [[c]] | p # ps \<Rightarrow> (c # p) # ps))"

text \<open>\<^verbatim>\<open>s.includes(t)\<close>.\<close>

fun includes_str :: "string \<Rightarrow> string \<Rightarrow> bool" where
  "includes_str [] t = (t = [])"
| "includes_str (c # cs) t = (starts_with (c # cs) t \<or> includes_str cs t)"

subsection \<open>Validation of one candidate root\<close>

definition MIN_JAVA_VERSION :: nat where "MIN_JAVA_VERSION = 17"
definition MAX_JAVA_VERSION :: nat where "MAX_JAVA_VERSION = 99"

definition javaExe_of :: "host \<Rightarrow> string \<Rightarrow> string" where
  "javaExe_of h javaHomePath = path_join h [javaHomePath, ''bin'', ''java.exe'']"

definition javacExe_of :: "host \<Rightarrow> string \<Rightarrow> string" where
  "javacExe_of h javaHomePath = path_join h [javaHomePath, ''bin'', ''javac.exe'']"

definition version_command :: "string \<Rightarrow> string" where
  "version_command javaExe = [dq] @ javaExe @ [dq] @ '' -version''"

definition out_of_range_reason :: "host \<Rightarrow> nat \<Rightarrow> string" where
  "out_of_range_reason h majorVersion =
     ''Version '' @ number_text h majorVersion @ '' is outside supported range ('' @
     number_text h MIN_JAVA_VERSION @ ''-'' @ number_text h MAX_JAVA_VERSION @ '').''"

definition validateJavaPath :: "host \<Rightarrow> string \<Rightarrow> validation action" where
  "validateJavaPath h javaHomePath =
     bind (existsSync javaHomePath) (\<lambda>root_exists.
     if \<not> root_exists then
       ret (Invalid ''The specified directory does not exist.'')
     else
       let javaExe = javaExe_of h javaHomePath in
       bind (existsSync javaExe) (\<lambda>java_exists.
       if \<not> java_exists then
         ret (Invalid (''The file '' @ [sq] @ javaExe @ [sq] @ '' does not exist.''))
       else
         let javacExe = javacExe_of h javaHomePath in
         bind (existsSync javacExe) (\<lambda>javac_exists.
         if \<not> javac_exists then
           ret (Invalid ''It is not a JDK (missing 'javac.exe').'')
         else
           try_catch
             (bind (execPromise h (version_command javaExe)) (\<lambda>(stdout, stderr).
                case version_match stderr of
                  Some digits \<Rightarrow>
                    let majorVersion = parseInt10 digits in
                    if majorVersion \<ge> MIN_JAVA_VERSION \<and> majorVersion \<le> MAX_JAVA_VERSION
                    then ret (Valid javaExe)
                    else ret (Invalid (out_of_range_reason h majorVersion))
                | None \<Rightarrow> ret (Invalid ''Could not determine Java version.'')))
             (\<lambda>error. ret (Invalid ''Could not execute 'java -version' successfully.'')))))"

subsection \<open>Discovery\<close>

text \<open>\<^verbatim>\<open>path.dirname(path.dirname(javaPath))\<close>.\<close>

definition jdk_home :: "host \<Rightarrow> string \<Rightarrow> string" where
  "jdk_home h javaPath = path_dirname h (path_dirname h javaPath)"

text \<open>The loop over the lines that \<^verbatim>\<open>where java\<close> printed; \<open>Some\<close> is the
  \<^verbatim>\<open>return\<close> inside the loop, \<open>None\<close> is falling out of it.\<close>

primrec probe_paths :: "host \<Rightarrow> string list \<Rightarrow> string option action" where
  "probe_paths h [] = ret None"
| "probe_paths h (javaPath # javaPaths) =
     (let jdkHome = jdk_home h javaPath in
      bind (validateJavaPath h jdkHome) (\<lambda>result.
      case result of
        Valid p \<Rightarrow> ret (Some p)
      | Invalid r \<Rightarrow> probe_paths h javaPaths))"

definition not_found_message :: "host \<Rightarrow> string" where
  "not_found_message h =
     ''KopeCode could not find a compatible Java Development Kit (JDK version '' @
     number_text h MIN_JAVA_VERSION @ ''-'' @ number_text h MAX_JAVA_VERSION @
     '') on your system.'' @ [LF, LF] @
     ''Please:'' @ [LF] @
     ''1. Install a compatible JDK (Oracle JDK, OpenJDK, or Eclipse Temurin)'' @ [LF] @
     ''2. Set the JAVA_HOME environment variable, or'' @ [LF] @
     ''3. Configure the 'kope-java.javaHome' setting in VS Code''"

text \<open>
  \<^verbatim>\<open>findValidJavaRuntime\<close> is written here in three pieces, one for each numbered
  block of the source. \<open>check_JAVA_HOME\<close> is block 2 (\<open>Some\<close> is its \<^verbatim>\<open>return\<close>,
  \<open>None\<close> is going on to block 3); \<open>search_PATH\<close> is block 3 with its
  \<^verbatim>\<open>try\<close> and \<^verbatim>\<open>catch\<close>; \<open>findValidJavaRuntime\<close> is block 1, the calls of
  the two others, and block 4.
\<close>

definition check_JAVA_HOME :: "host \<Rightarrow> string option action" where
  "check_JAVA_HOME h =
     bind (emit ReadEnvJavaHome) (\<lambda>_.
     case truthy (JAVA_HOME h) of
       Some javaHome \<Rightarrow>
         bind (validateJavaPath h javaHome) (\<lambda>result.
         case result of
           Valid p \<Rightarrow> ret (Some p)
         | Invalid r \<Rightarrow> ret None)
     | None \<Rightarrow> ret None)"

definition search_PATH :: "host \<Rightarrow> string option action" where
  "search_PATH h =
     try_catch
       (bind (execPromise h ''where java'') (\<lambda>(stdout, stderr).
          probe_paths h (split_crlf (trim stdout))))
       (\<lambda>e. ret None)"

definition findValidJavaRuntime :: "host \<Rightarrow> string action" where
  "findValidJavaRuntime h =
     bind (emit GetConfiguration) (\<lambda>_.
     case truthy (javaHome_setting h) of
       Some userPath \<Rightarrow>
         bind (validateJavaPath h userPath) (\<lambda>result.
         case result of
           Valid p \<Rightarrow> ret p
         | Invalid r \<Rightarrow>
             throw (Error (''Invalid Java installation at '' @ [sq] @ userPath @ [sq] @
                           ''. '' @ r)))
     | None \<Rightarrow>
         bind (check_JAVA_HOME h) (\<lambda>from_env.
         case from_env of
           Some p \<Rightarrow> ret p
         | None \<Rightarrow>
             bind (search_PATH h) (\<lambda>from_path.
             case from_path of
               Some p \<Rightarrow> ret p
             | None \<Rightarrow> throw (Error (not_found_message h)))))"

subsection \<open>Launch, restart, deactivate\<close>

definition serverDataPath_of :: "host \<Rightarrow> string" where
  "serverDataPath_of h = path_join h [extensionPath h, ''server-data'']"

definition serverJarPath_of :: "host \<Rightarrow> string" where
  "serverJarPath_of h = path_join h [extensionPath h, ''server'', ''jdt-language-server.jar'']"

definition jar_missing_message :: "host \<Rightarrow> string" where
  "jar_missing_message h =
     ''Java Language Server jar not found at: '' @ serverJarPath_of h @ ''.'' @ [LF] @
     ''Please reinstall the KopeCode Java extension.''"

definition serverOptions :: "host \<Rightarrow> string \<Rightarrow> language_client" where
  "serverOptions h javaCmdPath =
     \<lparr>command = javaCmdPath,
      args = [''-jar'', serverJarPath_of h,
              ''-configuration'', path_join h [extensionPath h, ''server'', ''config_win''],
              ''-data'', serverDataPath_of h]\<rparr>"

text \<open>The message built in the \<^verbatim>\<open>catch\<close> around \<^verbatim>\<open>client.start()\<close>. The
  apostrophe of the second message is U+2019.\<close>

definition start_failure_message :: "js_error \<Rightarrow> string" where
  "start_failure_message error =
     ''Failed to start Java Language Server. '' @
     (if includes_str (message error) ''ENOENT'' then
        ''Java executable not found. Please verify the configured path.''
      else if includes_str (message error) ''spawn'' then
        ''Could not spawn Java process. Ensure it'' @ [CHR 0xE2, CHR 0x80, CHR 0x99] @
        ''s a valid executable.''
      else if message error \<noteq> [] then message error else ''Unknown error.'')"

text \<open>\<^verbatim>\<open>client.start()\<close> is called on the client that was just stored in the module
  variable.\<close>

definition launchLanguageServer :: "host \<Rightarrow> string \<Rightarrow> unit action" where
  "launchLanguageServer h javaCmdPath =
     (let serverDataPath = serverDataPath_of h in
      bind (existsSync serverDataPath) (\<lambda>data_exists.
      bind (if \<not> data_exists then mkdirSync h serverDataPath else ret ()) (\<lambda>_.
      let serverJarPath = serverJarPath_of h in
      bind (existsSync serverJarPath) (\<lambda>jar_exists.
      if \<not> jar_exists then throw (Error (jar_missing_message h))
      else
        let c = serverOptions h javaCmdPath in
        bind (new_LanguageClient c) (\<lambda>_.
        try_catch (client_start h c)
          (\<lambda>error.
             let errorMessage = start_failure_message error in
             bind (emit (ShowErrorMessage errorMessage)) (\<lambda>_.
             throw (Error errorMessage))))))))"

text \<open>The two marks that open the messages of a restart: U+2705 and U+274C.\<close>

definition check_mark :: string where "check_mark = [CHR 0xE2, CHR 0x9C, CHR 0x85]"
definition cross_mark :: string where "cross_mark = [CHR 0xE2, CHR 0x9D, CHR 0x8C]"

definition restart_failure_message :: "js_error \<Rightarrow> string" where
  "restart_failure_message error =
     cross_mark @ '' Failed to restart Java Language Server: '' @ message error"

definition restart_success_message :: string where
  "restart_success_message = check_mark @ '' Java Language Server restarted successfully!''"

definition restartLanguageServer :: "host \<Rightarrow> unit action" where
  "restartLanguageServer h =
     try_catch
       (bind get_client (\<lambda>current.
        bind (case current of
                Some c \<Rightarrow> bind (client_stop h c) (\<lambda>_. set_client None)
              | None \<Rightarrow> ret ()) (\<lambda>_.
        bind (findValidJavaRuntime h) (\<lambda>javaCmdPath.
        bind (launchLanguageServer h javaCmdPath) (\<lambda>_.
        emit (ShowInformationMessage restart_success_message))))))
       (\<lambda>error. emit (ShowErrorMessage (restart_failure_message error)))"

text \<open>\<^verbatim>\<open>deactivate\<close> returns \<^verbatim>\<open>undefined\<close> (\<open>None\<close>) or the promise of
  \<^verbatim>\<open>client.stop()\<close>, whose rejection is the \<open>Inl\<close> outcome.\<close>

definition deactivate :: "host \<Rightarrow> unit option action" where
  "deactivate h =
     bind get_client (\<lambda>current.
     case current of
       None \<Rightarrow> ret None
     | Some c \<Rightarrow> bind (client_stop h c) (\<lambda>_. ret (Some ())))"

subsection \<open>A host and a disk for the examples\<close>

text \<open>
  Paths are joined with a slash and the parent of a path is what precedes its last
  slash. The disk holds three development kits (versions 11, 17 and 21), a kit whose
  interpreter prints its banner on standard output, a directory with a compiler but no
  interpreter, a kit whose interpreter may not be executed, and the installed extension
  with its packaged server. \<^verbatim>\<open>where java\<close> finds the kits of versions 11 and 17, in
  this order.
\<close>

fun slash_join :: "string list \<Rightarrow> string" where
  "slash_join [] = ''.''"
| "slash_join [p] = p"
| "slash_join (p # q # ps) = p @ ''/'' @ slash_join (q # ps)"

definition slash_dirname :: "string \<Rightarrow> string" where
  "slash_dirname s = rev (drop 1 (dropWhile (\<lambda>c. c \<noteq> CHR ''/'') (rev s)))"

definition banner :: "string \<Rightarrow> string" where
  "banner v = ''openjdk version '' @ [dq] @ v @ [dq] @ '' 2024-01-16''"

definition demo_exec :: "string \<Rightarrow> js_error + (string \<times> string)" where
  "demo_exec cmd =
     (if cmd = ''where java'' then
        Inr (''C:/jdk11/bin/java.exe'' @ [CR, LF] @ ''C:/jdk17/bin/java.exe'' @ [CR, LF], [])
      else if cmd = version_command ''C:/jdk11/bin/java.exe'' then Inr ([], banner ''11.0.22'')
      else if cmd = version_command ''C:/jdk17/bin/java.exe'' then Inr ([], banner ''17.0.10'')
      else if cmd = version_command ''C:/jdk21/bin/java.exe'' then Inr ([], banner ''21.0.2'')
      else if cmd = version_command ''C:/out17/bin/java.exe'' then Inr (banner ''17.0.10'', [])
      else Inl (Error ''spawn EACCES''))"

definition demo_host :: host where
  "demo_host =
     \<lparr>path_join = slash_join, path_dirname = slash_dirname, exec = demo_exec,
      javaHome_setting = None, JAVA_HOME = None, extensionPath = ''C:/ext'',
      mkdir_error = (\<lambda>p. None), start_error = (\<lambda>c. None), stop_error = (\<lambda>c. None),
      big_number_text = (\<lambda>n. ''Infinity'')\<rparr>"

definition demo_world :: world where
  "demo_world =
     \<lparr>files =
        {''C:/jdk11'', ''C:/jdk11/bin/java.exe'', ''C:/jdk11/bin/javac.exe'',
         ''C:/jdk17'', ''C:/jdk17/bin/java.exe'', ''C:/jdk17/bin/javac.exe'',
         ''C:/jdk21'', ''C:/jdk21/bin/java.exe'', ''C:/jdk21/bin/javac.exe'',
         ''C:/out17'', ''C:/out17/bin/java.exe'', ''C:/out17/bin/javac.exe'',
         ''C:/nojava'', ''C:/nojava/bin/javac.exe'',
         ''C:/locked'', ''C:/locked/bin/java.exe'', ''C:/locked/bin/javac.exe'',
         ''C:/ext'', ''C:/ext/server/jdt-language-server.jar''},
      client = None\<rparr>"

section \<open>Properties\<close>

subsection \<open>Validation, case by case\<close>

lemmas action_defs = bind_def try_catch_def ret_def throw_def emit_def existsSync_def
  execPromise_def

lemma validate_no_root:
  "p \<notin> files w \<Longrightarrow> validateJavaPath h p w =
     (Inr (Invalid ''The specified directory does not exist.''), w, [ExistsSync p])"
  by (simp add: validateJavaPath_def action_defs)

lemma validate_no_java:
  "p \<in> files w \<Longrightarrow> javaExe_of h p \<notin> files w \<Longrightarrow> validateJavaPath h p w =
     (Inr (Invalid (''The file '' @ [sq] @ javaExe_of h p @ [sq] @ '' does not exist.'')), w,
      [ExistsSync p, ExistsSync (javaExe_of h p)])"
  by (simp add: validateJavaPath_def action_defs Let_def)

lemma validate_no_javac:
  "p \<in> files w \<Longrightarrow> javaExe_of h p \<in> files w \<Longrightarrow> javacExe_of h p \<notin> files w \<Longrightarrow>
   validateJavaPath h p w =
     (Inr (Invalid ''It is not a JDK (missing 'javac.exe').''), w,
      [ExistsSync p, ExistsSync (javaExe_of h p), ExistsSync (javacExe_of h p)])"
  by (simp add: validateJavaPath_def action_defs Let_def)

lemma validate_exec_error:
  "p \<in> files w \<Longrightarrow> javaExe_of h p \<in> files w \<Longrightarrow> javacExe_of h p \<in> files w \<Longrightarrow>
   exec h (version_command (javaExe_of h p)) = Inl e \<Longrightarrow>
   validateJavaPath h p w =
     (Inr (Invalid ''Could not execute 'java -version' successfully.''), w,
      [ExistsSync p, ExistsSync (javaExe_of h p), ExistsSync (javacExe_of h p),
       Exec (version_command (javaExe_of h p))])"
  by (simp add: validateJavaPath_def action_defs Let_def)

lemma validate_exec_ok:
  "p \<in> files w \<Longrightarrow> javaExe_of h p \<in> files w \<Longrightarrow> javacExe_of h p \<in> files w \<Longrightarrow>
   exec h (version_command (javaExe_of h p)) = Inr (out, err) \<Longrightarrow>
   validateJavaPath h p w =
     (Inr (case version_match err of
             None \<Rightarrow> Invalid ''Could not determine Java version.''
           | Some ds \<Rightarrow>
               if MIN_JAVA_VERSION \<le> parseInt10 ds \<and> parseInt10 ds \<le> MAX_JAVA_VERSION
               then Valid (javaExe_of h p)
               else Invalid (out_of_range_reason h (parseInt10 ds))), w,
      [ExistsSync p, ExistsSync (javaExe_of h p), ExistsSync (javacExe_of h p),
       Exec (version_command (javaExe_of h p))])"
  by (simp add: validateJavaPath_def action_defs Let_def split: option.splits)

lemma validateJavaPath_returns: "\<exists>r es. validateJavaPath h p w = (Inr r, w, es)"
proof (cases "p \<in> files w \<and> javaExe_of h p \<in> files w \<and> javacExe_of h p \<in> files w")
  case True
  then show ?thesis
    by (cases "exec h (version_command (javaExe_of h p))")
       (auto simp: validate_exec_error validate_exec_ok)
next
  case False
  then show ?thesis
    using validate_no_root [of p w h] validate_no_java [of p w h] validate_no_javac [of p w h]
    by blast
qed

lemma validateJavaPath_cases:
  obtains r es where "validateJavaPath h p w = (Inr r, w, es)"
  using validateJavaPath_returns [of h p w] by blast

lemma validateJavaPath_client:
  "validateJavaPath h p (w\<lparr>client := c\<rparr>) =
     (outcome (validateJavaPath h p w), w\<lparr>client := c\<rparr>, effects (validateJavaPath h p w))"
  by (simp add: validateJavaPath_def action_defs Let_def outcome_def effects_def
      split: option.splits sum.splits prod.splits)

lemma version_command_not_where: "version_command x \<noteq> ''where java''"
  by (simp add: version_command_def dq_def)

lemma validateJavaPath_effects:
  "set (effects (validateJavaPath h p w)) \<subseteq>
     {ExistsSync p, ExistsSync (javaExe_of h p), ExistsSync (javacExe_of h p),
      Exec (version_command (javaExe_of h p))}"
  by (simp add: validateJavaPath_def action_defs Let_def effects_def
      split: option.splits sum.splits prod.splits)

lemma probe_paths_first_valid:
  assumes "\<forall>x\<in>set pre. \<exists>r. outcome (validateJavaPath h (jdk_home h x) w) = Inr (Invalid r)"
    and "outcome (validateJavaPath h (jdk_home h c) w) = Inr (Valid p)"
  shows "probe_paths h (pre @ c # post) w =
     (Inr (Some p), w, concat (map (\<lambda>x. effects (validateJavaPath h (jdk_home h x) w)) (pre @ [c])))"
  using assms
proof (induction pre)
  case Nil
  obtain r es where eq: "validateJavaPath h (jdk_home h c) w = (Inr r, w, es)"
    by (rule validateJavaPath_cases)
  with Nil have "r = Valid p" by (simp add: outcome_def)
  with eq show ?case
    by (simp add: bind_def ret_def effects_def)
next
  case (Cons a pre)
  obtain r es where eq: "validateJavaPath h (jdk_home h a) w = (Inr r, w, es)"
    by (rule validateJavaPath_cases)
  with Cons.prems obtain r' where r: "r = Invalid r'" by (auto simp: outcome_def)
  have IH: "probe_paths h (pre @ c # post) w =
     (Inr (Some p), w, concat (map (\<lambda>x. effects (validateJavaPath h (jdk_home h x) w)) (pre @ [c])))"
    using Cons by simp
  have "probe_paths h ((a # pre) @ c # post) w =
     (Inr (Some p), w, es @ concat (map (\<lambda>x. effects (validateJavaPath h (jdk_home h x) w)) (pre @ [c])))"
    using eq r IH by (simp add: bind_def)
  moreover have "effects (validateJavaPath h (jdk_home h a) w) = es"
    using eq by (simp add: effects_def)
  ultimately show ?case by simp
qed

subsection \<open>Discovery, piece by piece\<close>

lemma probe_paths_returns: "\<exists>y es. probe_paths h xs w = (Inr y, w, es)"
proof (induction xs)
  case Nil
  show ?case by (simp add: ret_def)
next
  case (Cons a xs)
  obtain r es where eq: "validateJavaPath h (jdk_home h a) w = (Inr r, w, es)"
    by (rule validateJavaPath_cases)
  from Cons obtain y es' where "probe_paths h xs w = (Inr y, w, es')" by blast
  with eq show ?case by (cases r) (simp_all add: bind_def ret_def)
qed

lemma check_JAVA_HOME_none:
  "truthy (JAVA_HOME h) = None \<Longrightarrow> check_JAVA_HOME h w = (Inr None, w, [ReadEnvJavaHome])"
  by (simp add: check_JAVA_HOME_def bind_def emit_def ret_def)

lemma check_JAVA_HOME_some:
  assumes "truthy (JAVA_HOME h) = Some javaHome"
  shows "check_JAVA_HOME h w =
     (Inr (case outcome (validateJavaPath h javaHome w) of
             Inr (Valid p) \<Rightarrow> Some p | _ \<Rightarrow> None), w,
      ReadEnvJavaHome # effects (validateJavaPath h javaHome w))"
proof -
  obtain r es where eq: "validateJavaPath h javaHome w = (Inr r, w, es)"
    by (rule validateJavaPath_cases)
  show ?thesis
    using assms eq
    by (cases r) (simp_all add: check_JAVA_HOME_def bind_def emit_def ret_def outcome_def effects_def)
qed

lemma check_JAVA_HOME_returns:
  "\<exists>x es. check_JAVA_HOME h w = (Inr x, w, ReadEnvJavaHome # es)"
  by (cases "truthy (JAVA_HOME h)") (simp_all add: check_JAVA_HOME_none check_JAVA_HOME_some)

lemma search_PATH_error:
  "exec h ''where java'' = Inl e \<Longrightarrow> search_PATH h w = (Inr None, w, [Exec ''where java''])"
  by (simp add: search_PATH_def try_catch_def bind_def execPromise_def ret_def)

lemma search_PATH_lines:
  assumes "exec h ''where java'' = Inr (stdout, stderr)"
  shows "search_PATH h w =
     (outcome (probe_paths h (split_crlf (trim stdout)) w), w,
      Exec ''where java'' # effects (probe_paths h (split_crlf (trim stdout)) w))"
proof -
  obtain y es where "probe_paths h (split_crlf (trim stdout)) w = (Inr y, w, es)"
    using probe_paths_returns by blast
  with assms show ?thesis
    by (simp add: search_PATH_def try_catch_def bind_def execPromise_def outcome_def effects_def)
qed

lemma search_PATH_returns:
  "\<exists>y es. search_PATH h w = (Inr y, w, Exec ''where java'' # es)"
proof (cases "exec h ''where java''")
  case (Inl e)
  then show ?thesis by (simp add: search_PATH_error)
next
  case (Inr outs)
  obtain stdout stderr where "outs = (stdout, stderr)" by (cases outs)
  with Inr have ex: "exec h ''where java'' = Inr (stdout, stderr)" by simp
  obtain y es where "probe_paths h (split_crlf (trim stdout)) w = (Inr y, w, es)"
    using probe_paths_returns by blast
  then show ?thesis by (simp add: search_PATH_lines [OF ex] outcome_def effects_def)
qed

lemma find_fall_through:
  assumes "truthy (javaHome_setting h) = None"
    and "check_JAVA_HOME h w = (Inr x, w, es)"
    and "search_PATH h w = (Inr y, w, es')"
  shows "findValidJavaRuntime h w =
     (case x of
        Some p \<Rightarrow> (Inr p, w, GetConfiguration # es)
      | None \<Rightarrow>
          (case y of
             Some p \<Rightarrow> (Inr p, w, GetConfiguration # es @ es')
           | None \<Rightarrow> (Inl (Error (not_found_message h)), w, GetConfiguration # es @ es')))"
  using assms
  by (cases x; cases y)
     (simp_all add: findValidJavaRuntime_def bind_def emit_def ret_def throw_def)

lemma find_user_path:
  assumes "truthy (javaHome_setting h) = Some u"
  shows "findValidJavaRuntime h w =
     ((case outcome (validateJavaPath h u w) of
         Inl e \<Rightarrow> Inl e
       | Inr (Valid p) \<Rightarrow> Inr p
       | Inr (Invalid r) \<Rightarrow>
           Inl (Error (''Invalid Java installation at '' @ [sq] @ u @ [sq] @ ''. '' @ r))),
      w, GetConfiguration # effects (validateJavaPath h u w))"
proof -
  obtain r es where eq: "validateJavaPath h u w = (Inr r, w, es)"
    by (rule validateJavaPath_cases)
  show ?thesis
    using assms eq
    by (cases r)
       (simp_all add: findValidJavaRuntime_def bind_def emit_def ret_def throw_def
          outcome_def effects_def)
qed

lemmas demo_defs = demo_host_def demo_world_def demo_exec_def javaExe_of_def javacExe_of_def
  version_command_def banner_def dq_def sq_def CR_def LF_def

subsection \<open>The version token\<close>

lemma out_of_range_reason_eq:
  "out_of_range_reason h v = ''Version '' @ number_text h v @ '' is outside supported range (17-99).''"
  by (simp add: out_of_range_reason_def number_text_def MIN_JAVA_VERSION_def MAX_JAVA_VERSION_def
      digit_char_def)

lemma not_digit_dq: "\<not> is_digit dq" by (simp add: is_digit_def dq_def)
lemma not_digit_dot: "\<not> is_digit CHR ''.''" by (simp add: is_digit_def)
lemma dq_not_dot: "dq \<noteq> CHR ''.''" by (simp add: dq_def)

lemma version_match_at_quote:
  assumes "ds \<noteq> []" "\<forall>c\<in>set ds. is_digit c"
  shows "version_match (dq # ds @ CHR ''.'' # rest) = Some ds"
proof -
  have "takeWhile is_digit (ds @ CHR ''.'' # rest) = ds"
    using assms by (simp add: takeWhile_append2 not_digit_dot)
  moreover have "dropWhile is_digit (ds @ CHR ''.'' # rest) = CHR ''.'' # rest"
    using assms by (simp add: dropWhile_append2 not_digit_dot)
  ultimately show ?thesis using assms by simp
qed

lemma version_match_first:
  assumes "version_match pre = None" "ds \<noteq> []" "\<forall>c\<in>set ds. is_digit c"
  shows "version_match (pre @ dq # ds @ CHR ''.'' # rest) = Some ds"
  using assms(1)
proof (induction pre)
  case Nil
  show ?case using version_match_at_quote [OF assms(2,3)] by simp
next
  case (Cons c cs)
  let ?X = "dq # ds @ CHR ''.'' # rest"
  from Cons.prems have none: "version_match cs = None"
    by (simp split: if_splits)
  have IH: "version_match (cs @ ?X) = Some ds" using Cons.IH none by simp
  have cond: "\<not> (c = dq \<and> takeWhile is_digit (cs @ ?X) \<noteq> [] \<and>
         (case dropWhile is_digit (cs @ ?X) of [] \<Rightarrow> False | d # _ \<Rightarrow> d = CHR ''.''))"
  proof (cases "\<forall>x\<in>set cs. is_digit x")
    case True
    then have "dropWhile is_digit (cs @ ?X) = ?X"
      by (simp add: dropWhile_append2 not_digit_dq)
    then show ?thesis by (simp add: dq_not_dot)
  next
    case False
    then obtain x where x: "x \<in> set cs" "\<not> is_digit x" by blast
    then have t: "takeWhile is_digit (cs @ ?X) = takeWhile is_digit cs"
      by (rule takeWhile_append1)
    have d: "dropWhile is_digit (cs @ ?X) = dropWhile is_digit cs @ ?X"
      using x by (rule dropWhile_append1)
    have ne: "dropWhile is_digit cs \<noteq> []" using x by (auto simp: dropWhile_eq_Nil_conv)
    from Cons.prems have "\<not> (c = dq \<and> takeWhile is_digit cs \<noteq> [] \<and>
         (case dropWhile is_digit cs of [] \<Rightarrow> False | d # _ \<Rightarrow> d = CHR ''.''))"
      by (auto split: if_splits)
    with t d ne show ?thesis by (cases "dropWhile is_digit cs") auto
  qed
  have "version_match ((c # cs) @ ?X) = version_match (cs @ ?X)"
    unfolding append_Cons by (subst version_match.simps) (simp only: cond if_False)
  with IH show ?case by (simp only:)
qed

lemma version_match_empty: "version_match [] = None" by simp

lemma discovery_events_of_validation:
  "ReadEnvJavaHome \<notin> set (effects (validateJavaPath h p w))"
  "Exec ''where java'' \<notin> set (effects (validateJavaPath h p w))"
proof -
  have a: "ReadEnvJavaHome \<notin> {ExistsSync p, ExistsSync (javaExe_of h p),
      ExistsSync (javacExe_of h p), Exec (version_command (javaExe_of h p))}"
    by simp
  have b: "Exec ''where java'' \<notin> {ExistsSync p, ExistsSync (javaExe_of h p),
      ExistsSync (javacExe_of h p), Exec (version_command (javaExe_of h p))}"
    using version_command_not_where [of "javaExe_of h p"] by (simp add: eq_commute)
  show "ReadEnvJavaHome \<notin> set (effects (validateJavaPath h p w))"
    using a validateJavaPath_effects [of h p w] by blast
  show "Exec ''where java'' \<notin> set (effects (validateJavaPath h p w))"
    using b validateJavaPath_effects [of h p w] by blast
qed

lemma valid_path_is_javaExe:
  assumes "outcome (validateJavaPath h root w) = Inr (Valid p)"
  shows "p = javaExe_of h root"
  using assms
  by (simp add: validateJavaPath_def action_defs Let_def outcome_def
      split: if_splits sum.splits prod.splits option.splits)

subsection \<open>Discovery does not depend on a falsy setting\<close>

lemma host_parts_setting:
  "javaExe_of (h\<lparr>javaHome_setting := s\<rparr>) = javaExe_of h"
  "javacExe_of (h\<lparr>javaHome_setting := s\<rparr>) = javacExe_of h"
  "execPromise (h\<lparr>javaHome_setting := s\<rparr>) = execPromise h"
  "out_of_range_reason (h\<lparr>javaHome_setting := s\<rparr>) = out_of_range_reason h"
  "not_found_message (h\<lparr>javaHome_setting := s\<rparr>) = not_found_message h"
  "jdk_home (h\<lparr>javaHome_setting := s\<rparr>) = jdk_home h"
  by (simp_all add: fun_eq_iff javaExe_of_def javacExe_of_def execPromise_def
      out_of_range_reason_def not_found_message_def number_text_def jdk_home_def)

lemma validateJavaPath_setting:
  "validateJavaPath (h\<lparr>javaHome_setting := s\<rparr>) = validateJavaPath h"
  unfolding validateJavaPath_def host_parts_setting by (rule refl)

lemma probe_paths_setting:
  "probe_paths (h\<lparr>javaHome_setting := s\<rparr>) xs = probe_paths h xs"
  by (induction xs) (simp_all add: validateJavaPath_setting host_parts_setting)

lemma check_JAVA_HOME_setting:
  "check_JAVA_HOME (h\<lparr>javaHome_setting := s\<rparr>) = check_JAVA_HOME h"
  unfolding check_JAVA_HOME_def validateJavaPath_setting by simp

lemma search_PATH_setting:
  "search_PATH (h\<lparr>javaHome_setting := s\<rparr>) = search_PATH h"
  unfolding search_PATH_def host_parts_setting probe_paths_setting by (rule refl)

lemma findValidJavaRuntime_falsy_setting:
  assumes "truthy s = None"
  shows "findValidJavaRuntime (h\<lparr>javaHome_setting := s\<rparr>) =
         findValidJavaRuntime (h\<lparr>javaHome_setting := None\<rparr>)"
  using assms
  by (simp add: findValidJavaRuntime_def check_JAVA_HOME_setting search_PATH_setting
      host_parts_setting)

lemma not_found_is_not_invalid_installation:
  "not_found_message h \<noteq> ''Invalid Java installation at '' @ rest"
  by (simp add: not_found_message_def)

lemma find_fall_through_shape:
  assumes "truthy (javaHome_setting h) = None"
  shows "\<exists>r es. findValidJavaRuntime h w = (r, w, GetConfiguration # ReadEnvJavaHome # es) \<and>
           (r = Inl (Error (not_found_message h)) \<or> (\<exists>p. r = Inr p))"
proof -
  obtain x es where env: "check_JAVA_HOME h w = (Inr x, w, ReadEnvJavaHome # es)"
    using check_JAVA_HOME_returns by blast
  obtain y es' where path: "search_PATH h w = (Inr y, w, Exec ''where java'' # es')"
    using search_PATH_returns by blast
  show ?thesis
    by (cases x; cases y) (simp_all add: find_fall_through [OF assms env path])
qed

subsection \<open>Launch, case by case\<close>

lemmas launch_defs = launchLanguageServer_def bind_def try_catch_def ret_def throw_def emit_def
  existsSync_def mkdirSync_def new_LanguageClient_def client_start_def Let_def

lemma launch_mkdir_fails:
  assumes "serverDataPath_of h \<notin> files w" "mkdir_error h (serverDataPath_of h) = Some e"
  shows "launchLanguageServer h p w =
     (Inl e, w, [ExistsSync (serverDataPath_of h), MkdirSync (serverDataPath_of h)])"
  using assms by (simp add: launch_defs)

lemma launch_jar_missing_data_present:
  assumes "serverDataPath_of h \<in> files w" "serverJarPath_of h \<notin> files w"
  shows "launchLanguageServer h p w =
     (Inl (Error (jar_missing_message h)), w,
      [ExistsSync (serverDataPath_of h), ExistsSync (serverJarPath_of h)])"
  using assms by (simp add: launch_defs)

lemma launch_jar_missing_data_created:
  assumes "serverDataPath_of h \<notin> files w" "mkdir_error h (serverDataPath_of h) = None"
    and "serverJarPath_of h \<notin> files w" "serverJarPath_of h \<noteq> serverDataPath_of h"
  shows "launchLanguageServer h p w =
     (Inl (Error (jar_missing_message h)), w\<lparr>files := insert (serverDataPath_of h) (files w)\<rparr>,
      [ExistsSync (serverDataPath_of h), MkdirSync (serverDataPath_of h),
       ExistsSync (serverJarPath_of h)])"
  using assms by (simp add: launch_defs)

lemma launch_data_created_jar_present:
  assumes "serverDataPath_of h \<notin> files w" "mkdir_error h (serverDataPath_of h) = None"
    and "serverJarPath_of h \<in> files w"
  shows "launchLanguageServer h p w =
     ((case start_error h (serverOptions h p) of
         None \<Rightarrow> Inr ()
       | Some e \<Rightarrow> Inl (Error (start_failure_message e))),
      w\<lparr>files := insert (serverDataPath_of h) (files w), client := Some (serverOptions h p)\<rparr>,
      [ExistsSync (serverDataPath_of h), MkdirSync (serverDataPath_of h),
       ExistsSync (serverJarPath_of h), NewLanguageClient (serverOptions h p),
       ClientStart (serverOptions h p)] @
      (case start_error h (serverOptions h p) of
         None \<Rightarrow> []
       | Some e \<Rightarrow> [ShowErrorMessage (start_failure_message e)]))"
  using assms by (simp add: launch_defs split: option.splits)

lemma launch_data_present_jar_present:
  assumes "serverDataPath_of h \<in> files w" "serverJarPath_of h \<in> files w"
  shows "launchLanguageServer h p w =
     ((case start_error h (serverOptions h p) of
         None \<Rightarrow> Inr ()
       | Some e \<Rightarrow> Inl (Error (start_failure_message e))),
      w\<lparr>client := Some (serverOptions h p)\<rparr>,
      [ExistsSync (serverDataPath_of h), ExistsSync (serverJarPath_of h),
       NewLanguageClient (serverOptions h p), ClientStart (serverOptions h p)] @
      (case start_error h (serverOptions h p) of
         None \<Rightarrow> []
       | Some e \<Rightarrow> [ShowErrorMessage (start_failure_message e)]))"
  using assms by (simp add: launch_defs split: option.splits)

lemma launch_client:
  "client (final (launchLanguageServer h p w)) = client w \<or>
   client (final (launchLanguageServer h p w)) = Some (serverOptions h p)"
proof (cases "serverDataPath_of h \<in> files w")
  case True
  then show ?thesis
    by (cases "serverJarPath_of h \<in> files w")
       (simp_all add: launch_jar_missing_data_present launch_data_present_jar_present final_def)
next
  case False
  show ?thesis
  proof (cases "mkdir_error h (serverDataPath_of h)")
    case (Some e)
    with False show ?thesis by (simp add: launch_mkdir_fails final_def)
  next
    case None
    with False show ?thesis
      by (simp add: launch_defs final_def split: option.splits)
  qed
qed

subsection \<open>Discovery leaves the state alone and does not look at the client\<close>

lemma findValidJavaRuntime_frame: "\<exists>r es. findValidJavaRuntime h w = (r, w, es)"
proof (cases "truthy (javaHome_setting h)")
  case None
  then show ?thesis using find_fall_through_shape [OF None, of w] by blast
next
  case (Some u)
  then show ?thesis by (simp add: find_user_path)
qed

lemma findValidJavaRuntime_triple:
  "findValidJavaRuntime h w =
     (outcome (findValidJavaRuntime h w), w, effects (findValidJavaRuntime h w))"
  using findValidJavaRuntime_frame [of h w] by (auto simp: outcome_def effects_def)

lemma validateJavaPath_client_parts:
  "outcome (validateJavaPath h p (w\<lparr>client := c\<rparr>)) = outcome (validateJavaPath h p w)"
  "effects (validateJavaPath h p (w\<lparr>client := c\<rparr>)) = effects (validateJavaPath h p w)"
  by (simp_all add: validateJavaPath_client outcome_def effects_def)

lemma probe_paths_client:
  "probe_paths h xs (w\<lparr>client := c\<rparr>) =
     (outcome (probe_paths h xs w), w\<lparr>client := c\<rparr>, effects (probe_paths h xs w))"
proof (induction xs)
  case Nil
  show ?case by (simp add: ret_def outcome_def effects_def)
next
  case (Cons a xs)
  obtain r es where eq: "validateJavaPath h (jdk_home h a) w = (Inr r, w, es)"
    by (rule validateJavaPath_cases)
  then have eq': "validateJavaPath h (jdk_home h a) (w\<lparr>client := c\<rparr>) = (Inr r, w\<lparr>client := c\<rparr>, es)"
    by (simp add: validateJavaPath_client outcome_def effects_def)
  obtain y es' where p: "probe_paths h xs w = (Inr y, w, es')"
    using probe_paths_returns by blast
  with Cons have p': "probe_paths h xs (w\<lparr>client := c\<rparr>) = (Inr y, w\<lparr>client := c\<rparr>, es')"
    by (simp add: outcome_def effects_def)
  show ?case
    using eq eq' p p' by (cases r) (simp_all add: bind_def ret_def outcome_def effects_def)
qed

lemma check_JAVA_HOME_client:
  "check_JAVA_HOME h (w\<lparr>client := c\<rparr>) =
     (outcome (check_JAVA_HOME h w), w\<lparr>client := c\<rparr>, effects (check_JAVA_HOME h w))"
proof (cases "truthy (JAVA_HOME h)")
  case None
  then show ?thesis by (simp add: check_JAVA_HOME_none outcome_def effects_def)
next
  case (Some javaHome)
  show ?thesis
    by (simp add: check_JAVA_HOME_some [OF Some] validateJavaPath_client_parts
        outcome_def [of "(a, b)" for a b] effects_def [of "(a, b)" for a b])
qed

lemma search_PATH_client:
  "search_PATH h (w\<lparr>client := c\<rparr>) =
     (outcome (search_PATH h w), w\<lparr>client := c\<rparr>, effects (search_PATH h w))"
proof (cases "exec h ''where java''")
  case (Inl e)
  then show ?thesis by (simp add: search_PATH_error outcome_def effects_def)
next
  case (Inr outs)
  obtain stdout stderr where "outs = (stdout, stderr)" by (cases outs)
  with Inr have ex: "exec h ''where java'' = Inr (stdout, stderr)" by simp
  show ?thesis
    by (simp add: search_PATH_lines [OF ex] probe_paths_client
        outcome_def [of "(a, b)" for a b] effects_def [of "(a, b)" for a b])
qed

lemma findValidJavaRuntime_client:
  "findValidJavaRuntime h (w\<lparr>client := c\<rparr>) =
     (outcome (findValidJavaRuntime h w), w\<lparr>client := c\<rparr>, effects (findValidJavaRuntime h w))"
proof (cases "truthy (javaHome_setting h)")
  case (Some u)
  show ?thesis
    by (simp add: find_user_path [OF Some] validateJavaPath_client_parts
        outcome_def [of "(a, b)" for a b] effects_def [of "(a, b)" for a b])
next
  case None
  obtain x es where env: "check_JAVA_HOME h w = (Inr x, w, es)"
    using check_JAVA_HOME_returns by blast
  obtain y es' where path: "search_PATH h w = (Inr y, w, es')"
    using search_PATH_returns by blast
  have env': "check_JAVA_HOME h (w\<lparr>client := c\<rparr>) = (Inr x, w\<lparr>client := c\<rparr>, es)"
    using env by (simp add: check_JAVA_HOME_client outcome_def effects_def)
  have path': "search_PATH h (w\<lparr>client := c\<rparr>) = (Inr y, w\<lparr>client := c\<rparr>, es')"
    using path by (simp add: search_PATH_client outcome_def effects_def)
  show ?thesis
    by (cases x; cases y)
       (simp_all add: find_fall_through [OF None env path] find_fall_through [OF None env' path']
          outcome_def effects_def)
qed

subsection \<open>Restart\<close>

lemmas restart_defs = restartLanguageServer_def bind_def try_catch_def ret_def emit_def
  get_client_def set_client_def client_stop_def restart_failure_message_def
  restart_success_message_def

lemma restart_stop_fails:
  assumes "client w = Some c" "stop_error h c = Some e"
  shows "restartLanguageServer h w =
     (Inr (), w, [ClientStop c, ShowErrorMessage (restart_failure_message e)])"
  using assms by (simp add: restart_defs)

lemma restart_after_stop:
  assumes "case client w of None \<Rightarrow> True | Some c \<Rightarrow> stop_error h c = None"
    and "findValidJavaRuntime h (w\<lparr>client := None\<rparr>) = (r, w\<lparr>client := None\<rparr>, es)"
  shows "restartLanguageServer h w =
     (case r of
        Inl e \<Rightarrow>
          (Inr (), w\<lparr>client := None\<rparr>,
           (case client w of None \<Rightarrow> [] | Some c \<Rightarrow> [ClientStop c]) @ es @
           [ShowErrorMessage (restart_failure_message e)])
      | Inr p \<Rightarrow>
          (Inr (), final (launchLanguageServer h p (w\<lparr>client := None\<rparr>)),
           (case client w of None \<Rightarrow> [] | Some c \<Rightarrow> [ClientStop c]) @ es @
           effects (launchLanguageServer h p (w\<lparr>client := None\<rparr>)) @
           [case outcome (launchLanguageServer h p (w\<lparr>client := None\<rparr>)) of
              Inl e \<Rightarrow> ShowErrorMessage (restart_failure_message e)
            | Inr u \<Rightarrow> ShowInformationMessage restart_success_message]))"
proof -
  have w0: "client w = None \<Longrightarrow> w\<lparr>client := None\<rparr> = w" by simp
  show ?thesis
  proof (cases r)
    case (Inl e)
    with assms show ?thesis
      by (cases "client w") (simp_all add: restart_defs w0)
  next
    case (Inr p)
    obtain r2 w2 es2 where l: "launchLanguageServer h p (w\<lparr>client := None\<rparr>) = (r2, w2, es2)"
      by (cases "launchLanguageServer h p (w\<lparr>client := None\<rparr>)")
    with assms Inr show ?thesis
      by (cases "client w"; cases r2)
         (simp_all add: restart_defs w0 final_def effects_def outcome_def)
  qed
qed

subsection \<open>The example host, evaluated\<close>

lemma demo_paths:
  "javaExe_of demo_host p = p @ ''/bin/java.exe''"
  "javacExe_of demo_host p = p @ ''/bin/javac.exe''"
  by (simp_all add: javaExe_of_def javacExe_of_def demo_host_def)

lemma demo_host_exec: "exec demo_host = demo_exec"
  by (simp add: demo_host_def)

lemma version_match_banner:
  "version_match (banner ''11.0.22'') = Some ''11''"
  "version_match (banner ''17.0.10'') = Some ''17''"
  "version_match (banner ''21.0.2'') = Some ''21''"
  by (simp_all add: banner_def dq_def is_digit_def)

lemma parseInt10_examples:
  "parseInt10 ''11'' = 11" "parseInt10 ''17'' = 17" "parseInt10 ''21'' = 21"
  by (simp_all add: parseInt10_def digit_value_def)

lemma number_text_11: "number_text h 11 = ''11''"
  by (simp add: number_text_def digit_char_def)

lemma slash_paths:
  assumes "path_join h = slash_join"
  shows "javaExe_of h p = p @ ''/bin/java.exe''" "javacExe_of h p = p @ ''/bin/javac.exe''"
  using assms by (simp_all add: javaExe_of_def javacExe_of_def)

lemma demo_where_lines:
  "split_crlf (trim (''C:/jdk11/bin/java.exe'' @ [CR, LF] @ ''C:/jdk17/bin/java.exe'' @ [CR, LF])) =
     [''C:/jdk11/bin/java.exe'', ''C:/jdk17/bin/java.exe'']"
  by (simp add: trim_def strip_left.simps white_space_def CR_def LF_def)

lemma demo_jdk_home:
  assumes "path_dirname h = slash_dirname"
  shows "jdk_home h ''C:/jdk11/bin/java.exe'' = ''C:/jdk11''"
    "jdk_home h ''C:/jdk17/bin/java.exe'' = ''C:/jdk17''"
  using assms by (simp_all add: jdk_home_def slash_dirname_def)

lemma demo_validate:
  assumes "path_join h = slash_join" "exec h = demo_exec" "files w = files demo_world"
  shows "validateJavaPath h ''C:/jdk11'' w =
     (Inr (Invalid ''Version 11 is outside supported range (17-99).''), w,
      [ExistsSync ''C:/jdk11'', ExistsSync ''C:/jdk11/bin/java.exe'',
       ExistsSync ''C:/jdk11/bin/javac.exe'', Exec (version_command ''C:/jdk11/bin/java.exe'')])"
    and "validateJavaPath h ''C:/jdk17'' w =
     (Inr (Valid ''C:/jdk17/bin/java.exe''), w,
      [ExistsSync ''C:/jdk17'', ExistsSync ''C:/jdk17/bin/java.exe'',
       ExistsSync ''C:/jdk17/bin/javac.exe'', Exec (version_command ''C:/jdk17/bin/java.exe'')])"
    and "validateJavaPath h ''C:/jdk21'' w =
     (Inr (Valid ''C:/jdk21/bin/java.exe''), w,
      [ExistsSync ''C:/jdk21'', ExistsSync ''C:/jdk21/bin/java.exe'',
       ExistsSync ''C:/jdk21/bin/javac.exe'', Exec (version_command ''C:/jdk21/bin/java.exe'')])"
proof -
  note paths = slash_paths [OF assms(1)]
  have fs: "''C:/jdk11'' \<in> files w" "javaExe_of h ''C:/jdk11'' \<in> files w"
    "javacExe_of h ''C:/jdk11'' \<in> files w"
    "''C:/jdk17'' \<in> files w" "javaExe_of h ''C:/jdk17'' \<in> files w"
    "javacExe_of h ''C:/jdk17'' \<in> files w"
    "''C:/jdk21'' \<in> files w" "javaExe_of h ''C:/jdk21'' \<in> files w"
    "javacExe_of h ''C:/jdk21'' \<in> files w"
    by (simp_all add: paths assms(3) demo_world_def)
  have ex: "exec h (version_command (javaExe_of h ''C:/jdk11'')) = Inr ([], banner ''11.0.22'')"
    "exec h (version_command (javaExe_of h ''C:/jdk17'')) = Inr ([], banner ''17.0.10'')"
    "exec h (version_command (javaExe_of h ''C:/jdk21'')) = Inr ([], banner ''21.0.2'')"
    by (simp_all add: paths assms(2) demo_exec_def version_command_def dq_def)
  show "validateJavaPath h ''C:/jdk11'' w =
     (Inr (Invalid ''Version 11 is outside supported range (17-99).''), w,
      [ExistsSync ''C:/jdk11'', ExistsSync ''C:/jdk11/bin/java.exe'',
       ExistsSync ''C:/jdk11/bin/javac.exe'', Exec (version_command ''C:/jdk11/bin/java.exe'')])"
    by (simp add: validate_exec_ok [OF fs(1-3) ex(1)] version_match_banner parseInt10_examples
        out_of_range_reason_eq number_text_11 MIN_JAVA_VERSION_def paths)
  show "validateJavaPath h ''C:/jdk17'' w =
     (Inr (Valid ''C:/jdk17/bin/java.exe''), w,
      [ExistsSync ''C:/jdk17'', ExistsSync ''C:/jdk17/bin/java.exe'',
       ExistsSync ''C:/jdk17/bin/javac.exe'', Exec (version_command ''C:/jdk17/bin/java.exe'')])"
    by (simp add: validate_exec_ok [OF fs(4-6) ex(2)] version_match_banner parseInt10_examples
        MIN_JAVA_VERSION_def MAX_JAVA_VERSION_def paths)
  show "validateJavaPath h ''C:/jdk21'' w =
     (Inr (Valid ''C:/jdk21/bin/java.exe''), w,
      [ExistsSync ''C:/jdk21'', ExistsSync ''C:/jdk21/bin/java.exe'',
       ExistsSync ''C:/jdk21/bin/javac.exe'', Exec (version_command ''C:/jdk21/bin/java.exe'')])"
    by (simp add: validate_exec_ok [OF fs(7-9) ex(3)] version_match_banner parseInt10_examples
        MIN_JAVA_VERSION_def MAX_JAVA_VERSION_def paths)
qed

lemma demo_server_paths:
  assumes "path_join h = slash_join" "extensionPath h = ''C:/ext''"
  shows "serverDataPath_of h = ''C:/ext/server-data''"
    "serverJarPath_of h = ''C:/ext/server/jdt-language-server.jar''"
  using assms by (simp_all add: serverDataPath_of_def serverJarPath_of_def)

section \<open>The claims about validation\<close>

text \<open>
  Claim C6. Validation of a candidate never throws to its caller: for every host, path and
  state it returns a result, which is either valid with a path or invalid with a reason.
  In particular, when the three files exist and running the interpreter fails (the error
  that \<^verbatim>\<open>cp.exec\<close> reports, such as a denied execute permission), the rejection is
  caught and the result is invalid with the reason that the version query could not be
  executed.
\<close>

theorem validateJavaPath_never_throws:
  "(\<exists>r. outcome (validateJavaPath h p w) = Inr r) \<and>
   (p \<in> files w \<and> javaExe_of h p \<in> files w \<and> javacExe_of h p \<in> files w \<and>
    exec h (version_command (javaExe_of h p)) = Inl e \<longrightarrow>
    outcome (validateJavaPath h p w) =
      Inr (Invalid ''Could not execute 'java -version' successfully.''))"
proof
  obtain r es where "validateJavaPath h p w = (Inr r, w, es)"
    by (rule validateJavaPath_cases)
  then show "\<exists>r. outcome (validateJavaPath h p w) = Inr r"
    by (simp add: outcome_def)
next
  show "p \<in> files w \<and> javaExe_of h p \<in> files w \<and> javacExe_of h p \<in> files w \<and>
    exec h (version_command (javaExe_of h p)) = Inl e \<longrightarrow>
    outcome (validateJavaPath h p w) =
      Inr (Invalid ''Could not execute 'java -version' successfully.'')"
    by (auto simp: validate_exec_error outcome_def)
qed

text \<open>The kit that may not be executed: the subprocess fails, validation returns.\<close>

theorem validateJavaPath_never_throws_witness:
  "exec demo_host (version_command (javaExe_of demo_host ''C:/locked'')) =
     Inl (Error ''spawn EACCES'') \<and>
   outcome (validateJavaPath demo_host ''C:/locked'' demo_world) =
     Inr (Invalid ''Could not execute 'java -version' successfully.'')"
proof -
  have ex: "exec demo_host (version_command (javaExe_of demo_host ''C:/locked'')) =
     Inl (Error ''spawn EACCES'')"
    by (simp add: demo_paths demo_host_exec demo_exec_def version_command_def dq_def)
  have fs: "''C:/locked'' \<in> files demo_world \<and>
      javaExe_of demo_host ''C:/locked'' \<in> files demo_world \<and>
      javacExe_of demo_host ''C:/locked'' \<in> files demo_world"
    by (simp add: demo_paths demo_world_def)
  show ?thesis
    using validateJavaPath_never_throws
      [of demo_host "''C:/locked''" demo_world "Error ''spawn EACCES''"] ex fs
    by blast
qed

text \<open>
  Claim C4. Validation checks, in this order, that the root exists, that the interpreter
  exists, that the compiler exists, then runs the version query and checks the range,
  and stops at the first check that fails: the calls made are the checks up to and
  including the failing one, and the reason is that of the failing check. In particular a
  root that exists and lacks the interpreter is invalid with a reason that names the
  missing file, whether or not the compiler is there and whatever the interpreter would
  have printed.
\<close>

theorem validateJavaPath_check_order:
  "(p \<notin> files w \<longrightarrow>
      validateJavaPath h p w =
        (Inr (Invalid ''The specified directory does not exist.''), w, [ExistsSync p])) \<and>
   (p \<in> files w \<and> javaExe_of h p \<notin> files w \<longrightarrow>
      validateJavaPath h p w =
        (Inr (Invalid (''The file '' @ [sq] @ javaExe_of h p @ [sq] @ '' does not exist.'')), w,
         [ExistsSync p, ExistsSync (javaExe_of h p)])) \<and>
   (p \<in> files w \<and> javaExe_of h p \<in> files w \<and> javacExe_of h p \<notin> files w \<longrightarrow>
      validateJavaPath h p w =
        (Inr (Invalid ''It is not a JDK (missing 'javac.exe').''), w,
         [ExistsSync p, ExistsSync (javaExe_of h p), ExistsSync (javacExe_of h p)])) \<and>
   (p \<in> files w \<and> javaExe_of h p \<in> files w \<and> javacExe_of h p \<in> files w \<longrightarrow>
      validateJavaPath h p w =
        (Inr (case exec h (version_command (javaExe_of h p)) of
                Inl e \<Rightarrow> Invalid ''Could not execute 'java -version' successfully.''
              | Inr (out, err) \<Rightarrow>
                  (case version_match err of
                     None \<Rightarrow> Invalid ''Could not determine Java version.''
                   | Some ds \<Rightarrow>
                       if MIN_JAVA_VERSION \<le> parseInt10 ds \<and> parseInt10 ds \<le> MAX_JAVA_VERSION
                       then Valid (javaExe_of h p)
                       else Invalid (out_of_range_reason h (parseInt10 ds)))), w,
         [ExistsSync p, ExistsSync (javaExe_of h p), ExistsSync (javacExe_of h p),
          Exec (version_command (javaExe_of h p))]))"
proof (intro conjI impI)
  assume "p \<in> files w \<and> javaExe_of h p \<in> files w \<and> javacExe_of h p \<in> files w"
  then show "validateJavaPath h p w =
        (Inr (case exec h (version_command (javaExe_of h p)) of
                Inl e \<Rightarrow> Invalid ''Could not execute 'java -version' successfully.''
              | Inr (out, err) \<Rightarrow>
                  (case version_match err of
                     None \<Rightarrow> Invalid ''Could not determine Java version.''
                   | Some ds \<Rightarrow>
                       if MIN_JAVA_VERSION \<le> parseInt10 ds \<and> parseInt10 ds \<le> MAX_JAVA_VERSION
                       then Valid (javaExe_of h p)
                       else Invalid (out_of_range_reason h (parseInt10 ds)))), w,
         [ExistsSync p, ExistsSync (javaExe_of h p), ExistsSync (javacExe_of h p),
          Exec (version_command (javaExe_of h p))])"
    by (cases "exec h (version_command (javaExe_of h p))")
       (auto simp: validate_exec_error validate_exec_ok)
qed (simp_all add: validate_no_root validate_no_java validate_no_javac)

text \<open>A root with a compiler and no interpreter.\<close>

theorem validateJavaPath_check_order_witness:
  "''C:/nojava'' \<in> files demo_world \<and>
   javaExe_of demo_host ''C:/nojava'' \<notin> files demo_world \<and>
   javacExe_of demo_host ''C:/nojava'' \<in> files demo_world \<and>
   validateJavaPath demo_host ''C:/nojava'' demo_world =
     (Inr (Invalid ''The file 'C:/nojava/bin/java.exe' does not exist.''), demo_world,
      [ExistsSync ''C:/nojava'', ExistsSync ''C:/nojava/bin/java.exe''])"
proof -
  have fs: "''C:/nojava'' \<in> files demo_world"
    "javaExe_of demo_host ''C:/nojava'' \<notin> files demo_world"
    "javacExe_of demo_host ''C:/nojava'' \<in> files demo_world"
    by (simp_all add: demo_paths demo_world_def)
  show ?thesis
    using validateJavaPath_check_order [of "''C:/nojava''" demo_world demo_host] fs
    by (simp add: demo_paths sq_def)
qed

text \<open>
  Claim C3. When the three files exist, the version query succeeds and its diagnostic
  output holds a version token with major version \<open>v\<close>: if \<open>v\<close> is between
  \<open>MIN_JAVA_VERSION = 17\<close> and \<open>MAX_JAVA_VERSION = 99\<close> inclusive, the result is valid
  with the path of the interpreter; if \<open>v\<close> is below 17 or above 99, the result is invalid
  with a reason that cites \<open>v\<close> and the range 17-99.
\<close>

theorem validateJavaPath_version_range:
  assumes "p \<in> files w" "javaExe_of h p \<in> files w" "javacExe_of h p \<in> files w"
    and "exec h (version_command (javaExe_of h p)) = Inr (out, err)"
    and "version_match err = Some ds"
  shows "MIN_JAVA_VERSION = 17 \<and> MAX_JAVA_VERSION = 99 \<and>
    (MIN_JAVA_VERSION \<le> parseInt10 ds \<and> parseInt10 ds \<le> MAX_JAVA_VERSION \<longrightarrow>
       outcome (validateJavaPath h p w) = Inr (Valid (javaExe_of h p))) \<and>
    (parseInt10 ds < MIN_JAVA_VERSION \<or> MAX_JAVA_VERSION < parseInt10 ds \<longrightarrow>
       outcome (validateJavaPath h p w) =
         Inr (Invalid (''Version '' @ number_text h (parseInt10 ds) @
                       '' is outside supported range (17-99).'')))"
  using assms
  by (auto simp: validate_exec_ok outcome_def out_of_range_reason_eq
      MIN_JAVA_VERSION_def MAX_JAVA_VERSION_def)

text \<open>Version 17 is accepted and version 11 is rejected.\<close>

theorem validateJavaPath_version_range_witness:
  "outcome (validateJavaPath demo_host ''C:/jdk17'' demo_world) =
     Inr (Valid ''C:/jdk17/bin/java.exe'') \<and>
   outcome (validateJavaPath demo_host ''C:/jdk11'' demo_world) =
     Inr (Invalid ''Version 11 is outside supported range (17-99).'')"
proof -
  have fs17: "''C:/jdk17'' \<in> files demo_world" "javaExe_of demo_host ''C:/jdk17'' \<in> files demo_world"
    "javacExe_of demo_host ''C:/jdk17'' \<in> files demo_world"
    and fs11: "''C:/jdk11'' \<in> files demo_world" "javaExe_of demo_host ''C:/jdk11'' \<in> files demo_world"
    "javacExe_of demo_host ''C:/jdk11'' \<in> files demo_world"
    by (simp_all add: demo_paths demo_world_def)
  have ex17: "exec demo_host (version_command (javaExe_of demo_host ''C:/jdk17'')) =
      Inr ([], banner ''17.0.10'')"
    and ex11: "exec demo_host (version_command (javaExe_of demo_host ''C:/jdk11'')) =
      Inr ([], banner ''11.0.22'')"
    by (simp_all add: demo_paths demo_host_exec demo_exec_def version_command_def dq_def)
  show ?thesis
    using validateJavaPath_version_range [OF fs17 ex17 version_match_banner(2)]
      validateJavaPath_version_range [OF fs11 ex11 version_match_banner(1)]
    by (simp add: parseInt10_examples number_text_11 demo_paths)
qed

text \<open>
  Claim C1 says that validation succeeds when the version banner is on standard output
  or on the diagnostic channel. The code reads the diagnostic channel only
  (\<^verbatim>\<open>const { stderr } = await execPromise(...)\<close>). Here the three files exist, the
  version query succeeds and prints the banner of version 17 on standard output: the
  combined output holds the token, the version is in range, and validation fails.
\<close>

theorem banner_on_stdout_counterexample:
  "''C:/out17'' \<in> files demo_world \<and>
   javaExe_of demo_host ''C:/out17'' \<in> files demo_world \<and>
   javacExe_of demo_host ''C:/out17'' \<in> files demo_world \<and>
   exec demo_host (version_command (javaExe_of demo_host ''C:/out17'')) =
     Inr (banner ''17.0.10'', []) \<and>
   version_match (banner ''17.0.10'' @ []) = Some ''17'' \<and>
   parseInt10 ''17'' = 17 \<and>
   outcome (validateJavaPath demo_host ''C:/out17'' demo_world) =
     Inr (Invalid ''Could not determine Java version.'')"
proof -
  have fs: "''C:/out17'' \<in> files demo_world" "javaExe_of demo_host ''C:/out17'' \<in> files demo_world"
    "javacExe_of demo_host ''C:/out17'' \<in> files demo_world"
    by (simp_all add: demo_paths demo_world_def)
  have ex: "exec demo_host (version_command (javaExe_of demo_host ''C:/out17'')) =
      Inr (banner ''17.0.10'', [])"
    by (simp add: demo_paths demo_host_exec demo_exec_def version_command_def dq_def)
  have "outcome (validateJavaPath demo_host ''C:/out17'' demo_world) =
     Inr (Invalid ''Could not determine Java version.'')"
    by (simp add: validate_exec_ok [OF fs ex] outcome_def)
  with fs ex show ?thesis
    by (simp add: version_match_banner parseInt10_examples)
qed

text \<open>
  Claim C1, amended. For a candidate root whose three files exist and whose version query
  succeeds, validation looks at the diagnostic channel only, whatever standard output
  holds. If the diagnostic channel has no double quote followed by digits and a dot,
  the result is invalid, the version could not be determined. If it has one, the digits
  of the first such token are the major version, and the result is valid exactly when it
  lies between \<open>MIN_JAVA_VERSION\<close> and \<open>MAX_JAVA_VERSION\<close>.
\<close>

theorem validateJavaPath_reads_stderr_only:
  assumes "p \<in> files w" "javaExe_of h p \<in> files w" "javacExe_of h p \<in> files w"
    and "exec h (version_command (javaExe_of h p)) = Inr (out, err)"
  shows
    "(version_match err = None \<longrightarrow>
        outcome (validateJavaPath h p w) = Inr (Invalid ''Could not determine Java version.'')) \<and>
     (err = pre @ dq # ds @ CHR ''.'' # rest \<and> version_match pre = None \<and>
      ds \<noteq> [] \<and> (\<forall>c\<in>set ds. is_digit c) \<longrightarrow>
        outcome (validateJavaPath h p w) =
          Inr (if MIN_JAVA_VERSION \<le> parseInt10 ds \<and> parseInt10 ds \<le> MAX_JAVA_VERSION
               then Valid (javaExe_of h p)
               else Invalid (out_of_range_reason h (parseInt10 ds))))"
proof (intro conjI impI)
  assume "version_match err = None"
  then show "outcome (validateJavaPath h p w) = Inr (Invalid ''Could not determine Java version.'')"
    by (simp add: validate_exec_ok [OF assms] outcome_def)
next
  assume a: "err = pre @ dq # ds @ CHR ''.'' # rest \<and> version_match pre = None \<and>
      ds \<noteq> [] \<and> (\<forall>c\<in>set ds. is_digit c)"
  then have "version_match err = Some ds"
    using version_match_first [of pre ds rest] by blast
  then show "outcome (validateJavaPath h p w) =
          Inr (if MIN_JAVA_VERSION \<le> parseInt10 ds \<and> parseInt10 ds \<le> MAX_JAVA_VERSION
               then Valid (javaExe_of h p)
               else Invalid (out_of_range_reason h (parseInt10 ds)))"
    by (simp add: validate_exec_ok [OF assms] outcome_def)
qed

text \<open>A banner on the diagnostic channel is read; the same banner on standard output is
  not.\<close>

theorem validateJavaPath_reads_stderr_only_witness:
  "outcome (validateJavaPath demo_host ''C:/jdk21'' demo_world) =
     Inr (Valid ''C:/jdk21/bin/java.exe'') \<and>
   outcome (validateJavaPath demo_host ''C:/out17'' demo_world) =
     Inr (Invalid ''Could not determine Java version.'')"
proof -
  have fs21: "''C:/jdk21'' \<in> files demo_world" "javaExe_of demo_host ''C:/jdk21'' \<in> files demo_world"
    "javacExe_of demo_host ''C:/jdk21'' \<in> files demo_world"
    and fs17: "''C:/out17'' \<in> files demo_world" "javaExe_of demo_host ''C:/out17'' \<in> files demo_world"
    "javacExe_of demo_host ''C:/out17'' \<in> files demo_world"
    by (simp_all add: demo_paths demo_world_def)
  have ex21: "exec demo_host (version_command (javaExe_of demo_host ''C:/jdk21'')) =
      Inr ([], banner ''21.0.2'')"
    and ex17: "exec demo_host (version_command (javaExe_of demo_host ''C:/out17'')) =
      Inr (banner ''17.0.10'', [])"
    by (simp_all add: demo_paths demo_host_exec demo_exec_def version_command_def dq_def)
  have shape: "banner ''21.0.2'' =
        ''openjdk version '' @ dq # ''21'' @ CHR ''.'' # (''0.2'' @ [dq] @ '' 2024-01-16'') \<and>
      version_match ''openjdk version '' = None \<and> ''21'' \<noteq> [] \<and>
      (\<forall>c\<in>set ''21''. is_digit c)"
    by (simp add: banner_def is_digit_def dq_def)
  have "outcome (validateJavaPath demo_host ''C:/jdk21'' demo_world) =
     Inr (if MIN_JAVA_VERSION \<le> parseInt10 ''21'' \<and> parseInt10 ''21'' \<le> MAX_JAVA_VERSION
          then Valid (javaExe_of demo_host ''C:/jdk21'')
          else Invalid (out_of_range_reason demo_host (parseInt10 ''21'')))"
    using validateJavaPath_reads_stderr_only
      [OF fs21 ex21, of "''openjdk version ''" "''21''" "''0.2'' @ [dq] @ '' 2024-01-16''"] shape
    by blast
  then have a: "outcome (validateJavaPath demo_host ''C:/jdk21'' demo_world) =
     Inr (Valid ''C:/jdk21/bin/java.exe'')"
    by (simp add: parseInt10_examples MIN_JAVA_VERSION_def MAX_JAVA_VERSION_def demo_paths)
  have b: "outcome (validateJavaPath demo_host ''C:/out17'' demo_world) =
     Inr (Invalid ''Could not determine Java version.'')"
    using validateJavaPath_reads_stderr_only [OF fs17 ex17] version_match_empty by blast
  from a b show ?thesis by simp
qed

section \<open>The claims about discovery\<close>

text \<open>
  Claim C2. When the \<^verbatim>\<open>javaHome\<close> setting holds a non-empty path and that path fails
  validation, discovery throws an error that names the path and gives the reason of the
  validation. The calls it made are the read of the configuration and those of this one
  validation: the environment variable is not read and \<^verbatim>\<open>where java\<close> is not run.
\<close>

theorem invalid_override_is_hard_failure:
  assumes "javaHome_setting h = Some userPath" "userPath \<noteq> []"
    and "outcome (validateJavaPath h userPath w) = Inr (Invalid r)"
  shows "outcome (findValidJavaRuntime h w) =
           Inl (Error (''Invalid Java installation at '' @ [sq] @ userPath @ [sq] @ ''. '' @ r)) \<and>
         effects (findValidJavaRuntime h w) =
           GetConfiguration # effects (validateJavaPath h userPath w) \<and>
         ReadEnvJavaHome \<notin> set (effects (findValidJavaRuntime h w)) \<and>
         Exec ''where java'' \<notin> set (effects (findValidJavaRuntime h w))"
proof -
  have t: "truthy (javaHome_setting h) = Some userPath" using assms by simp
  show ?thesis
    using assms(3) discovery_events_of_validation [of h userPath w]
    by (simp add: find_user_path [OF t] outcome_def effects_def)
qed

text \<open>The setting points at the kit of version 11, the environment variable at a valid
  kit: discovery fails all the same.\<close>

theorem invalid_override_is_hard_failure_witness:
  "outcome (findValidJavaRuntime
      (demo_host\<lparr>javaHome_setting := Some ''C:/jdk11'', JAVA_HOME := Some ''C:/jdk21''\<rparr>)
      demo_world) =
     Inl (Error ''Invalid Java installation at 'C:/jdk11'. Version 11 is outside supported range (17-99).'') \<and>
   effects (findValidJavaRuntime
      (demo_host\<lparr>javaHome_setting := Some ''C:/jdk11'', JAVA_HOME := Some ''C:/jdk21''\<rparr>)
      demo_world) =
     [GetConfiguration, ExistsSync ''C:/jdk11'', ExistsSync ''C:/jdk11/bin/java.exe'',
      ExistsSync ''C:/jdk11/bin/javac.exe'', Exec (version_command ''C:/jdk11/bin/java.exe'')]"
proof -
  let ?h = "demo_host\<lparr>javaHome_setting := Some ''C:/jdk11'', JAVA_HOME := Some ''C:/jdk21''\<rparr>"
  have pj: "path_join ?h = slash_join" and xe: "exec ?h = demo_exec"
    by (simp_all add: demo_host_def)
  note paths = slash_paths [OF pj]
  have fs: "''C:/jdk11'' \<in> files demo_world" "javaExe_of ?h ''C:/jdk11'' \<in> files demo_world"
    "javacExe_of ?h ''C:/jdk11'' \<in> files demo_world"
    by (simp_all add: paths demo_world_def)
  have ex: "exec ?h (version_command (javaExe_of ?h ''C:/jdk11'')) = Inr ([], banner ''11.0.22'')"
    by (simp add: paths xe demo_exec_def version_command_def dq_def)
  have v: "validateJavaPath ?h ''C:/jdk11'' demo_world =
     (Inr (Invalid ''Version 11 is outside supported range (17-99).''), demo_world,
      [ExistsSync ''C:/jdk11'', ExistsSync ''C:/jdk11/bin/java.exe'',
       ExistsSync ''C:/jdk11/bin/javac.exe'', Exec (version_command ''C:/jdk11/bin/java.exe'')])"
    by (simp add: validate_exec_ok [OF fs ex] version_match_banner parseInt10_examples
        out_of_range_reason_eq number_text_11 MIN_JAVA_VERSION_def paths)
  have s: "javaHome_setting ?h = Some ''C:/jdk11''" "''C:/jdk11'' \<noteq> []" by simp_all
  have o: "outcome (validateJavaPath ?h ''C:/jdk11'' demo_world) =
      Inr (Invalid ''Version 11 is outside supported range (17-99).'')"
    by (simp add: v outcome_def)
  show ?thesis
    using invalid_override_is_hard_failure [OF s o]
    by (simp add: v effects_def sq_def)
qed

text \<open>
  Claim C5. When the \<^verbatim>\<open>javaHome\<close> setting is absent (or empty) and the environment
  variable is absent (or empty) or fails validation, and \<^verbatim>\<open>where java\<close> prints lines
  of which one leads to a root that validates while every line before it leads to a root
  that does not: discovery returns the interpreter path of that first valid root. The
  candidates are validated one after the other, in the order of the lines, each one to
  its end before the next begins, and no line after the first valid one is looked at.
\<close>

theorem search_path_first_valid:
  assumes no_override: "truthy (javaHome_setting h) = None"
    and no_env: "truthy (JAVA_HOME h) = None \<or>
       (\<exists>javaHome r. truthy (JAVA_HOME h) = Some javaHome \<and>
          outcome (validateJavaPath h javaHome w) = Inr (Invalid r))"
    and "where": "exec h ''where java'' = Inr (stdout, stderr)"
    and lines: "split_crlf (trim stdout) = pre @ c # post"
    and skipped: "\<forall>x\<in>set pre. \<exists>r. outcome (validateJavaPath h (jdk_home h x) w) = Inr (Invalid r)"
    and found: "outcome (validateJavaPath h (jdk_home h c) w) = Inr (Valid p)"
  shows "outcome (findValidJavaRuntime h w) = Inr p \<and>
         p = javaExe_of h (jdk_home h c) \<and>
         effects (findValidJavaRuntime h w) =
           [GetConfiguration, ReadEnvJavaHome] @
           (case truthy (JAVA_HOME h) of None \<Rightarrow> []
            | Some javaHome \<Rightarrow> effects (validateJavaPath h javaHome w)) @
           [Exec ''where java''] @
           concat (map (\<lambda>x. effects (validateJavaPath h (jdk_home h x) w)) (pre @ [c]))"
proof -
  have probe: "probe_paths h (pre @ c # post) w =
     (Inr (Some p), w, concat (map (\<lambda>x. effects (validateJavaPath h (jdk_home h x) w)) (pre @ [c])))"
    using skipped found by (rule probe_paths_first_valid)
  have path: "search_PATH h w =
     (Inr (Some p), w, Exec ''where java'' #
        concat (map (\<lambda>x. effects (validateJavaPath h (jdk_home h x) w)) (pre @ [c])))"
    using lines probe by (simp add: search_PATH_lines [OF "where"] outcome_def effects_def)
  have env: "check_JAVA_HOME h w =
     (Inr None, w, ReadEnvJavaHome #
        (case truthy (JAVA_HOME h) of None \<Rightarrow> []
         | Some javaHome \<Rightarrow> effects (validateJavaPath h javaHome w)))"
  proof (cases "truthy (JAVA_HOME h)")
    case None
    then show ?thesis by (simp add: check_JAVA_HOME_none)
  next
    case (Some javaHome)
    with no_env obtain r where
      "outcome (validateJavaPath h javaHome w) = Inr (Invalid r)" by auto
    with Some show ?thesis by (simp add: check_JAVA_HOME_some [OF Some])
  qed
  show ?thesis
    using valid_path_is_javaExe [OF found]
    by (simp add: find_fall_through [OF no_override env path] outcome_def effects_def)
qed

text \<open>The search path holds version 11, then version 17: discovery returns the second.\<close>

theorem search_path_first_valid_witness:
  "outcome (findValidJavaRuntime demo_host demo_world) = Inr ''C:/jdk17/bin/java.exe'' \<and>
   effects (findValidJavaRuntime demo_host demo_world) =
     [GetConfiguration, ReadEnvJavaHome, Exec ''where java'',
      ExistsSync ''C:/jdk11'', ExistsSync ''C:/jdk11/bin/java.exe'',
      ExistsSync ''C:/jdk11/bin/javac.exe'', Exec (version_command ''C:/jdk11/bin/java.exe''),
      ExistsSync ''C:/jdk17'', ExistsSync ''C:/jdk17/bin/java.exe'',
      ExistsSync ''C:/jdk17/bin/javac.exe'', Exec (version_command ''C:/jdk17/bin/java.exe'')]"
proof -
  have h: "path_join demo_host = slash_join" "exec demo_host = demo_exec"
    "path_dirname demo_host = slash_dirname"
    "truthy (javaHome_setting demo_host) = None" "truthy (JAVA_HOME demo_host) = None"
    by (simp_all add: demo_host_def)
  note v = demo_validate [OF h(1,2) refl]
  note jh = demo_jdk_home [OF h(3)]
  have wh: "exec demo_host ''where java'' =
      Inr (''C:/jdk11/bin/java.exe'' @ [CR, LF] @ ''C:/jdk17/bin/java.exe'' @ [CR, LF], [])"
    by (simp add: h(2) demo_exec_def)
  have lines: "split_crlf (trim (''C:/jdk11/bin/java.exe'' @ [CR, LF] @ ''C:/jdk17/bin/java.exe'' @ [CR, LF])) =
      [''C:/jdk11/bin/java.exe''] @ ''C:/jdk17/bin/java.exe'' # []"
    using demo_where_lines by simp
  have skipped: "\<forall>x\<in>set [''C:/jdk11/bin/java.exe''].
      \<exists>r. outcome (validateJavaPath demo_host (jdk_home demo_host x) demo_world) = Inr (Invalid r)"
    by (simp add: jh v outcome_def)
  have found: "outcome (validateJavaPath demo_host (jdk_home demo_host ''C:/jdk17/bin/java.exe'')
      demo_world) = Inr (Valid ''C:/jdk17/bin/java.exe'')"
    by (simp add: jh v outcome_def)
  show ?thesis
    using search_path_first_valid [OF h(4) disjI1 [OF h(5)] wh lines skipped found]
    by (simp add: h(5) jh v effects_def)
qed

text \<open>
  Claim C10. A \<^verbatim>\<open>javaHome\<close> setting that is the empty string is treated as an absent
  one: discovery does exactly what it does with no setting. It goes on to read the
  environment variable, and it never throws the error of an invalid configured path.
\<close>

theorem empty_javaHome_is_absent:
  "findValidJavaRuntime (h\<lparr>javaHome_setting := Some ''''\<rparr>) w =
     findValidJavaRuntime (h\<lparr>javaHome_setting := None\<rparr>) w \<and>
   take 2 (effects (findValidJavaRuntime (h\<lparr>javaHome_setting := Some ''''\<rparr>) w)) =
     [GetConfiguration, ReadEnvJavaHome] \<and>
   outcome (findValidJavaRuntime (h\<lparr>javaHome_setting := Some ''''\<rparr>) w) \<noteq>
     Inl (Error (''Invalid Java installation at '' @ [sq] @ '''' @ [sq] @ ''. '' @ r))"
proof -
  let ?h = "h\<lparr>javaHome_setting := Some ''''\<rparr>"
  have t: "truthy (javaHome_setting ?h) = None" by simp
  obtain res es where
    eq: "findValidJavaRuntime ?h w = (res, w, GetConfiguration # ReadEnvJavaHome # es)"
    and res: "res = Inl (Error (not_found_message ?h)) \<or> (\<exists>p. res = Inr p)"
    using find_fall_through_shape [OF t, of w] by blast
  have "res \<noteq> Inl (Error (''Invalid Java installation at '' @ [sq] @ '''' @ [sq] @ ''. '' @ r))"
    using res not_found_is_not_invalid_installation [of ?h "[sq] @ '''' @ [sq] @ ''. '' @ r"]
    by auto
  then show ?thesis
    using eq findValidJavaRuntime_falsy_setting [of "Some ''''" h]
    by (simp add: outcome_def effects_def)
qed

text \<open>With an empty setting and the environment variable at the kit of version 21,
  discovery returns that kit.\<close>

theorem empty_javaHome_is_absent_witness:
  "outcome (findValidJavaRuntime
      (demo_host\<lparr>JAVA_HOME := Some ''C:/jdk21'', javaHome_setting := Some []\<rparr>) demo_world) =
     Inr ''C:/jdk21/bin/java.exe''"
proof -
  let ?h = "demo_host\<lparr>JAVA_HOME := Some ''C:/jdk21'', javaHome_setting := None\<rparr>"
  have h: "path_join ?h = slash_join" "exec ?h = demo_exec"
    "truthy (javaHome_setting ?h) = None" "truthy (JAVA_HOME ?h) = Some ''C:/jdk21''"
    by (simp_all add: demo_host_def)
  note v = demo_validate [OF h(1,2) refl]
  have env: "check_JAVA_HOME ?h demo_world =
      (Inr (Some ''C:/jdk21/bin/java.exe''), demo_world,
       ReadEnvJavaHome # effects (validateJavaPath ?h ''C:/jdk21'' demo_world))"
    by (simp add: check_JAVA_HOME_some [OF h(4)] v outcome_def)
  obtain y es where path: "search_PATH ?h demo_world = (Inr y, demo_world, es)"
    using search_PATH_returns by blast
  have "outcome (findValidJavaRuntime ?h demo_world) = Inr ''C:/jdk21/bin/java.exe''"
    by (simp add: find_fall_through [OF h(3) env path] outcome_def)
  then show ?thesis
    using empty_javaHome_is_absent [of "demo_host\<lparr>JAVA_HOME := Some ''C:/jdk21''\<rparr>" demo_world]
    by simp
qed

section \<open>The claims about the server lifecycle\<close>

text \<open>
  Claim C9. \<^verbatim>\<open>deactivate\<close> with no client in the module variable returns
  \<^verbatim>\<open>undefined\<close>: no error, no call to the outside, the state unchanged. With a client
  there, it calls \<^verbatim>\<open>stop\<close> on that client and returns what \<^verbatim>\<open>stop\<close> returns.
\<close>

theorem deactivate_cases:
  "(client w = None \<longrightarrow> deactivate h w = (Inr None, w, [])) \<and>
   (client w = Some c \<longrightarrow>
      deactivate h w =
        ((case stop_error h c of None \<Rightarrow> Inr (Some ()) | Some e \<Rightarrow> Inl e), w, [ClientStop c]))"
  by (simp add: deactivate_def bind_def get_client_def client_stop_def ret_def
      split: option.splits)

text \<open>Both cases on the example host.\<close>

theorem deactivate_cases_witness:
  "deactivate demo_host demo_world = (Inr None, demo_world, []) \<and>
   deactivate demo_host (demo_world\<lparr>client := Some (serverOptions demo_host ''java'')\<rparr>) =
     (Inr (Some ()), demo_world\<lparr>client := Some (serverOptions demo_host ''java'')\<rparr>,
      [ClientStop (serverOptions demo_host ''java'')])"
proof -
  have a: "client demo_world = None" by (simp add: demo_world_def)
  have b: "client (demo_world\<lparr>client := Some (serverOptions demo_host ''java'')\<rparr>) =
      Some (serverOptions demo_host ''java'')" by simp
  have s: "stop_error demo_host (serverOptions demo_host ''java'') = None"
    by (simp add: demo_host_def)
  show ?thesis
    using deactivate_cases [where w = demo_world and h = demo_host]
      deactivate_cases [where w = "demo_world\<lparr>client := Some (serverOptions demo_host ''java'')\<rparr>"
        and c = "serverOptions demo_host ''java''" and h = demo_host] a b s
    by simp
qed

text \<open>
  Claim C8 says that every launch with the server jar absent fails with the error that
  asks for a reinstallation. The data directory is prepared first
  (\<^verbatim>\<open>fs.mkdirSync\<close>, with nothing around it that catches), so on a disk where the
  directory is absent and cannot be created the launch fails with the error of
  \<^verbatim>\<open>mkdirSync\<close>, and the jar is never looked at.
\<close>

theorem mkdir_failure_counterexample:
  "serverJarPath_of (demo_host\<lparr>mkdir_error := (\<lambda>p. Some (Error ''EPERM''))\<rparr>) \<notin>
     files (demo_world\<lparr>files := {''C:/ext''}\<rparr>) \<and>
   outcome (launchLanguageServer (demo_host\<lparr>mkdir_error := (\<lambda>p. Some (Error ''EPERM''))\<rparr>)
      ''C:/jdk17/bin/java.exe'' (demo_world\<lparr>files := {''C:/ext''}\<rparr>)) = Inl (Error ''EPERM'') \<and>
   Error ''EPERM'' \<noteq>
     Error (jar_missing_message (demo_host\<lparr>mkdir_error := (\<lambda>p. Some (Error ''EPERM''))\<rparr>))"
proof -
  let ?h = "demo_host\<lparr>mkdir_error := (\<lambda>p. Some (Error ''EPERM''))\<rparr>"
  let ?w = "demo_world\<lparr>files := {''C:/ext''}\<rparr>"
  have h: "path_join ?h = slash_join" "extensionPath ?h = ''C:/ext''"
    by (simp_all add: demo_host_def)
  note sp = demo_server_paths [OF h]
  have a: "serverDataPath_of ?h \<notin> files ?w" "serverJarPath_of ?h \<notin> files ?w"
    by (simp_all add: sp)
  have b: "mkdir_error ?h (serverDataPath_of ?h) = Some (Error ''EPERM'')" by simp
  have c: "jar_missing_message ?h \<noteq> ''EPERM''"
    by (simp add: jar_missing_message_def)
  show ?thesis
    using a(2) c by (simp add: launch_mkdir_fails [OF a(1) b] outcome_def eq_commute)
qed

text \<open>
  Claim C8, amended. When the server jar is absent, the launch fails before a client is
  constructed and before anything is started: the only calls made are the two existence
  checks and possibly \<^verbatim>\<open>mkdirSync\<close>, and the client variable is unchanged. The
  error is the one that asks for a reinstallation whenever the data directory exists or
  is created without error. An absent data directory is created on demand and is by
  itself no failure: the launch goes on to the jar and, if the jar is there, to the
  client. If creating the directory throws, the launch fails with that error.
  (The jar path is taken to differ from the data directory path, as the results of
  \<^verbatim>\<open>path.join\<close> on different components do.)
\<close>

theorem launch_checks_jar_before_client:
  "(serverJarPath_of h \<notin> files w \<and> serverJarPath_of h \<noteq> serverDataPath_of h \<longrightarrow>
      (\<exists>e. outcome (launchLanguageServer h p w) = Inl e) \<and>
      client (final (launchLanguageServer h p w)) = client w \<and>
      set (effects (launchLanguageServer h p w)) \<subseteq>
        {ExistsSync (serverDataPath_of h), MkdirSync (serverDataPath_of h),
         ExistsSync (serverJarPath_of h)} \<and>
      (serverDataPath_of h \<in> files w \<or> mkdir_error h (serverDataPath_of h) = None \<longrightarrow>
         outcome (launchLanguageServer h p w) = Inl (Error (jar_missing_message h)))) \<and>
   (serverDataPath_of h \<notin> files w \<and> mkdir_error h (serverDataPath_of h) = None \<longrightarrow>
      serverDataPath_of h \<in> files (final (launchLanguageServer h p w)) \<and>
      take 2 (effects (launchLanguageServer h p w)) =
        [ExistsSync (serverDataPath_of h), MkdirSync (serverDataPath_of h)] \<and>
      (serverJarPath_of h \<in> files w \<longrightarrow>
         NewLanguageClient (serverOptions h p) \<in> set (effects (launchLanguageServer h p w)))) \<and>
   (serverDataPath_of h \<notin> files w \<and> mkdir_error h (serverDataPath_of h) = Some e \<longrightarrow>
      launchLanguageServer h p w =
        (Inl e, w, [ExistsSync (serverDataPath_of h), MkdirSync (serverDataPath_of h)]))"
proof (intro conjI impI)
  assume jar: "serverJarPath_of h \<notin> files w \<and> serverJarPath_of h \<noteq> serverDataPath_of h"
  have shape: "(\<exists>e. outcome (launchLanguageServer h p w) = Inl e) \<and>
      client (final (launchLanguageServer h p w)) = client w \<and>
      set (effects (launchLanguageServer h p w)) \<subseteq>
        {ExistsSync (serverDataPath_of h), MkdirSync (serverDataPath_of h),
         ExistsSync (serverJarPath_of h)} \<and>
      (serverDataPath_of h \<in> files w \<or> mkdir_error h (serverDataPath_of h) = None \<longrightarrow>
         outcome (launchLanguageServer h p w) = Inl (Error (jar_missing_message h)))"
  proof (cases "serverDataPath_of h \<in> files w")
    case True
    with jar show ?thesis
      by (simp add: launch_jar_missing_data_present outcome_def final_def effects_def)
  next
    case False
    show ?thesis
    proof (cases "mkdir_error h (serverDataPath_of h)")
      case None
      with False jar show ?thesis
        by (simp add: launch_jar_missing_data_created outcome_def final_def effects_def)
    next
      case (Some e')
      with False show ?thesis
        by (simp add: launch_mkdir_fails outcome_def final_def effects_def)
    qed
  qed
  from shape show "\<exists>e. outcome (launchLanguageServer h p w) = Inl e" by blast
  from shape show "client (final (launchLanguageServer h p w)) = client w" by blast
  from shape show "set (effects (launchLanguageServer h p w)) \<subseteq>
        {ExistsSync (serverDataPath_of h), MkdirSync (serverDataPath_of h),
         ExistsSync (serverJarPath_of h)}" by blast
  assume "serverDataPath_of h \<in> files w \<or> mkdir_error h (serverDataPath_of h) = None"
  with shape show "outcome (launchLanguageServer h p w) = Inl (Error (jar_missing_message h))"
    by blast
next
  assume a: "serverDataPath_of h \<notin> files w \<and> mkdir_error h (serverDataPath_of h) = None"
  have both: "serverDataPath_of h \<in> files (final (launchLanguageServer h p w)) \<and>
      take 2 (effects (launchLanguageServer h p w)) =
        [ExistsSync (serverDataPath_of h), MkdirSync (serverDataPath_of h)]"
    using a by (simp add: launch_defs final_def effects_def split: option.splits)
  from both show "serverDataPath_of h \<in> files (final (launchLanguageServer h p w))" by blast
  from both show "take 2 (effects (launchLanguageServer h p w)) =
        [ExistsSync (serverDataPath_of h), MkdirSync (serverDataPath_of h)]" by blast
  assume "serverJarPath_of h \<in> files w"
  with a show "NewLanguageClient (serverOptions h p) \<in> set (effects (launchLanguageServer h p w))"
    by (simp add: launch_data_created_jar_present effects_def)
next
  assume "serverDataPath_of h \<notin> files w \<and> mkdir_error h (serverDataPath_of h) = Some e"
  then show "launchLanguageServer h p w =
        (Inl e, w, [ExistsSync (serverDataPath_of h), MkdirSync (serverDataPath_of h)])"
    by (simp add: launch_mkdir_fails)
qed

text \<open>A disk with the extension directory only: the data directory is created, then the
  missing jar is reported.\<close>

theorem launch_checks_jar_before_client_witness:
  "launchLanguageServer demo_host ''C:/jdk17/bin/java.exe'' (demo_world\<lparr>files := {''C:/ext''}\<rparr>) =
     (Inl (Error (jar_missing_message demo_host)),
      demo_world\<lparr>files := {''C:/ext/server-data'', ''C:/ext''}\<rparr>,
      [ExistsSync ''C:/ext/server-data'', MkdirSync ''C:/ext/server-data'',
       ExistsSync ''C:/ext/server/jdt-language-server.jar''])"
proof -
  let ?w = "demo_world\<lparr>files := {''C:/ext''}\<rparr>"
  let ?r = "launchLanguageServer demo_host ''C:/jdk17/bin/java.exe'' ?w"
  have h: "path_join demo_host = slash_join" "extensionPath demo_host = ''C:/ext''"
    by (simp_all add: demo_host_def)
  note sp = demo_server_paths [OF h]
  have a: "serverJarPath_of demo_host \<notin> files ?w \<and>
      serverJarPath_of demo_host \<noteq> serverDataPath_of demo_host"
    and b: "serverDataPath_of demo_host \<notin> files ?w \<and>
      mkdir_error demo_host (serverDataPath_of demo_host) = None"
    by (simp_all add: sp) (simp add: demo_host_def)
  from a b have o: "outcome ?r = Inl (Error (jar_missing_message demo_host))"
    using launch_checks_jar_before_client [of demo_host ?w "''C:/jdk17/bin/java.exe''"]
    by blast
  have "?r = (outcome ?r, ?w\<lparr>files := insert (serverDataPath_of demo_host) (files ?w)\<rparr>,
      [ExistsSync (serverDataPath_of demo_host), MkdirSync (serverDataPath_of demo_host),
       ExistsSync (serverJarPath_of demo_host)])"
    using a b by (simp add: launch_jar_missing_data_created outcome_def)
  with o show ?thesis by (simp add: sp)
qed

text \<open>
  Claim C7 says that every restart runs discovery again, after stopping the client that
  is there. \<^verbatim>\<open>await client.stop()\<close> is inside the \<^verbatim>\<open>try\<close> block of
  \<^verbatim>\<open>restartLanguageServer\<close>: when it rejects, the \<^verbatim>\<open>catch\<close> block shows the
  error and the restart is over. The configuration is not read, discovery is not run,
  and the old client stays in the module variable.
\<close>

theorem restart_stop_failure_counterexample:
  "restartLanguageServer (demo_host\<lparr>stop_error := (\<lambda>c. Some (Error ''Stopping the server timed out''))\<rparr>)
     (demo_world\<lparr>client := Some (serverOptions demo_host ''C:/jdk17/bin/java.exe'')\<rparr>) =
     (Inr (), demo_world\<lparr>client := Some (serverOptions demo_host ''C:/jdk17/bin/java.exe'')\<rparr>,
      [ClientStop (serverOptions demo_host ''C:/jdk17/bin/java.exe''),
       ShowErrorMessage (restart_failure_message (Error ''Stopping the server timed out''))]) \<and>
   GetConfiguration \<notin> set (effects (restartLanguageServer
     (demo_host\<lparr>stop_error := (\<lambda>c. Some (Error ''Stopping the server timed out''))\<rparr>)
     (demo_world\<lparr>client := Some (serverOptions demo_host ''C:/jdk17/bin/java.exe'')\<rparr>)))"
proof -
  let ?h = "demo_host\<lparr>stop_error := (\<lambda>c. Some (Error ''Stopping the server timed out''))\<rparr>"
  let ?c = "serverOptions demo_host ''C:/jdk17/bin/java.exe''"
  let ?w = "demo_world\<lparr>client := Some ?c\<rparr>"
  have a: "client ?w = Some ?c" by simp
  have b: "stop_error ?h ?c = Some (Error ''Stopping the server timed out'')" by simp
  show ?thesis by (simp add: restart_stop_fails [OF a b] effects_def)
qed

text \<open>
  Claim C7, amended. A restart in which there is no client, or stopping the client
  succeeds, first stops the client that is there, then runs discovery in full on the
  current configuration, then launches with the path that this discovery returned (or
  reports its failure). No path is kept from before: discovery does not depend on the
  client variable, and a client that is in the variable after the restart has been
  constructed with the executable that the discovery of this restart returned.
\<close>

theorem restart_discovers_again:
  assumes "case client w of None \<Rightarrow> True | Some c \<Rightarrow> stop_error h c = None"
  shows
    "effects (restartLanguageServer h w) =
       (case client w of None \<Rightarrow> [] | Some c \<Rightarrow> [ClientStop c]) @
       effects (findValidJavaRuntime h w) @
       (case outcome (findValidJavaRuntime h w) of
          Inl e \<Rightarrow> [ShowErrorMessage (restart_failure_message e)]
        | Inr p \<Rightarrow>
            effects (launchLanguageServer h p (w\<lparr>client := None\<rparr>)) @
            [case outcome (launchLanguageServer h p (w\<lparr>client := None\<rparr>)) of
               Inl e \<Rightarrow> ShowErrorMessage (restart_failure_message e)
             | Inr u \<Rightarrow> ShowInformationMessage restart_success_message]) \<and>
     (client (final (restartLanguageServer h w)) = Some c' \<longrightarrow>
        outcome (findValidJavaRuntime h w) = Inr (command c')) \<and>
     outcome (findValidJavaRuntime h (w\<lparr>client := old\<rparr>)) = outcome (findValidJavaRuntime h w)"
proof -
  let ?idle = "w\<lparr>client := None\<rparr>"
  have disc: "findValidJavaRuntime h ?idle =
      (outcome (findValidJavaRuntime h w), ?idle, effects (findValidJavaRuntime h w))"
    by (rule findValidJavaRuntime_client)
  note r = restart_after_stop [OF assms disc]
  have eff: "effects (restartLanguageServer h w) =
       (case client w of None \<Rightarrow> [] | Some c \<Rightarrow> [ClientStop c]) @
       effects (findValidJavaRuntime h w) @
       (case outcome (findValidJavaRuntime h w) of
          Inl e \<Rightarrow> [ShowErrorMessage (restart_failure_message e)]
        | Inr p \<Rightarrow>
            effects (launchLanguageServer h p ?idle) @
            [case outcome (launchLanguageServer h p ?idle) of
               Inl e \<Rightarrow> ShowErrorMessage (restart_failure_message e)
             | Inr u \<Rightarrow> ShowInformationMessage restart_success_message])"
    by (cases "outcome (findValidJavaRuntime h w)")
       (simp_all add: r effects_def [of "(a, b)" for a b])
  have cl: "client (final (restartLanguageServer h w)) = Some c' \<longrightarrow>
        outcome (findValidJavaRuntime h w) = Inr (command c')"
  proof (cases "outcome (findValidJavaRuntime h w)")
    case (Inl e)
    then show ?thesis by (simp add: r final_def [of "(a, b)" for a b])
  next
    case (Inr p)
    have "client (final (restartLanguageServer h w)) =
        client (final (launchLanguageServer h p ?idle))"
      using Inr by (simp add: r final_def [of "(a, b)" for a b])
    moreover have "client (final (launchLanguageServer h p ?idle)) = None \<or>
        client (final (launchLanguageServer h p ?idle)) = Some (serverOptions h p)"
      using launch_client [of h p ?idle] by simp
    ultimately show ?thesis using Inr by (auto simp: serverOptions_def)
  qed
  have ind: "outcome (findValidJavaRuntime h (w\<lparr>client := old\<rparr>)) =
      outcome (findValidJavaRuntime h w)"
    by (simp add: findValidJavaRuntime_client outcome_def [of "(a, b)" for a b])
  from eff cl ind show ?thesis by blast
qed

text \<open>A client launched with the kit of version 17 is running and the setting now points
  at the kit of version 21: the restart stops the old client, validates the configured
  kit and launches with its interpreter.\<close>

theorem restart_discovers_again_witness:
  "client (final (restartLanguageServer (demo_host\<lparr>javaHome_setting := Some ''C:/jdk21''\<rparr>)
      (demo_world\<lparr>client := Some (serverOptions demo_host ''C:/jdk17/bin/java.exe'')\<rparr>))) =
     Some (serverOptions demo_host ''C:/jdk21/bin/java.exe'') \<and>
   take 6 (effects (restartLanguageServer (demo_host\<lparr>javaHome_setting := Some ''C:/jdk21''\<rparr>)
      (demo_world\<lparr>client := Some (serverOptions demo_host ''C:/jdk17/bin/java.exe'')\<rparr>))) =
     [ClientStop (serverOptions demo_host ''C:/jdk17/bin/java.exe''), GetConfiguration,
      ExistsSync ''C:/jdk21'', ExistsSync ''C:/jdk21/bin/java.exe'',
      ExistsSync ''C:/jdk21/bin/javac.exe'', Exec (version_command ''C:/jdk21/bin/java.exe'')]"
proof -
  let ?h = "demo_host\<lparr>javaHome_setting := Some ''C:/jdk21''\<rparr>"
  let ?old = "serverOptions demo_host ''C:/jdk17/bin/java.exe''"
  let ?w = "demo_world\<lparr>client := Some ?old\<rparr>"
  let ?idle = "?w\<lparr>client := None\<rparr>"
  have h: "path_join ?h = slash_join" "exec ?h = demo_exec" "extensionPath ?h = ''C:/ext''"
    "truthy (javaHome_setting ?h) = Some ''C:/jdk21''"
    "mkdir_error ?h = (\<lambda>p. None)" "start_error ?h = (\<lambda>c. None)" "stop_error ?h = (\<lambda>c. None)"
    by (simp_all add: demo_host_def)
  have fw: "files ?w = files demo_world" "files ?idle = files demo_world" by simp_all
  note v = demo_validate(3) [OF h(1,2) fw(1)]
  note sp = demo_server_paths [OF h(1,3)]
  have stop_ok: "case client ?w of None \<Rightarrow> True | Some c \<Rightarrow> stop_error ?h c = None"
    by (simp add: h(7))
  have disc: "findValidJavaRuntime ?h ?w =
      (Inr ''C:/jdk21/bin/java.exe'', ?w,
       [GetConfiguration, ExistsSync ''C:/jdk21'', ExistsSync ''C:/jdk21/bin/java.exe'',
        ExistsSync ''C:/jdk21/bin/javac.exe'', Exec (version_command ''C:/jdk21/bin/java.exe'')])"
    by (simp add: find_user_path [OF h(4)] v outcome_def effects_def)
  have so: "serverOptions ?h = serverOptions demo_host"
    by (simp add: fun_eq_iff serverOptions_def serverJarPath_of_def serverDataPath_of_def
        demo_host_def)
  have d: "serverDataPath_of ?h \<notin> files ?idle" "mkdir_error ?h (serverDataPath_of ?h) = None"
    "serverJarPath_of ?h \<in> files ?idle"
    by (simp_all add: sp h(5) demo_world_def)
  have launch: "launchLanguageServer ?h ''C:/jdk21/bin/java.exe'' ?idle =
      (Inr (), ?idle\<lparr>files := insert (serverDataPath_of ?h) (files ?idle),
                    client := Some (serverOptions demo_host ''C:/jdk21/bin/java.exe'')\<rparr>,
       [ExistsSync (serverDataPath_of ?h), MkdirSync (serverDataPath_of ?h),
        ExistsSync (serverJarPath_of ?h),
        NewLanguageClient (serverOptions demo_host ''C:/jdk21/bin/java.exe''),
        ClientStart (serverOptions demo_host ''C:/jdk21/bin/java.exe'')])"
    using launch_data_created_jar_present [OF d, of "''C:/jdk21/bin/java.exe''"]
    by (simp add: h(6) so)
  have eff: "take 6 (effects (restartLanguageServer ?h ?w)) =
     [ClientStop ?old, GetConfiguration,
      ExistsSync ''C:/jdk21'', ExistsSync ''C:/jdk21/bin/java.exe'',
      ExistsSync ''C:/jdk21/bin/javac.exe'', Exec (version_command ''C:/jdk21/bin/java.exe'')]"
    using restart_discovers_again [OF stop_ok]
    by (simp add: disc outcome_def [of "(a, b)" for a b] effects_def [of "(a, b)" for a b])
  have disc0: "findValidJavaRuntime ?h ?idle =
      (Inr ''C:/jdk21/bin/java.exe'', ?idle,
       [GetConfiguration, ExistsSync ''C:/jdk21'', ExistsSync ''C:/jdk21/bin/java.exe'',
        ExistsSync ''C:/jdk21/bin/javac.exe'', Exec (version_command ''C:/jdk21/bin/java.exe'')])"
    by (simp only: find_user_path [OF h(4)] demo_validate(3) [OF h(1,2) fw(2)]
        outcome_def effects_def fst_conv snd_conv sum.case validation.case)
  have "client (final (restartLanguageServer ?h ?w)) =
      client (final (launchLanguageServer ?h ''C:/jdk21/bin/java.exe'' ?idle))"
    by (simp only: restart_after_stop [OF stop_ok disc0] sum.case final_def fst_conv snd_conv)
  then have "client (final (restartLanguageServer ?h ?w)) =
      Some (serverOptions demo_host ''C:/jdk21/bin/java.exe'')"
    by (simp only: launch final_def fst_conv snd_conv) simp
  with eff show ?thesis by simp
qed

end
